theory Spec2Isabelle
  imports Complex_Main "HOL-Library.Char_ord" "HOL-Library.List_Lexorder"
begin

section \<open>Data model\<close>

text \<open>
  Python floats are modelled as reals (rounding, overflow and NaN are not modelled, except
  that the one NaN the engine can produce from well-typed input, \<open>np.mean([])\<close>,
  is made explicit as \<open>None\<close>). Dictionaries with a fixed key set are records; a key
  that the code reads with \<open>.get(key, default)\<close> is an \<open>option\<close> field.
  Wall-clock time is a number of seconds.
\<close>

type_synonym timestamp = nat

text \<open>A question dictionary, as the services build it and the engine reads it.\<close>

record question =
  q_id :: string
  content :: string
  options :: "string list"
  correct_answer :: "string option"
  concepts :: "int list option"
  difficulty :: "real option"
  discrimination :: "real option"

text \<open>A row of \<open>test_responses\<close>; the engine receives these rows as its response list.\<close>

record response_row =
  r_student_id :: string
  r_session_id :: string
  question_id :: string
  response :: int
  is_correct :: int
  proficiency_before :: "real list"
  proficiency_after :: "real list"
  r_timestamp :: timestamp

record end_criteria =
  ec_type :: "string option"
  min_questions :: "int option"
  max_questions :: "int option"
  precision_threshold :: "real option"
  classification_threshold :: "real option"

type_synonym q_matrix = "string \<rightharpoonup> int list"

section \<open>Adaptive engine (models/adaptive\_engine.py)\<close>

definition learning_rate :: real where
  "learning_rate = 0.1"

definition expit :: "real \<Rightarrow> real" where
  "expit x = 1 / (1 + exp (- x))"

text \<open>\<open>np.clip(x, lo, hi)\<close> is \<open>minimum(maximum(x, lo), hi)\<close>.\<close>

definition clip :: "real \<Rightarrow> real \<Rightarrow> real \<Rightarrow> real" where
  "clip x lo hi = min (max x lo) hi"

text \<open>\<open>np.dot\<close> of two one-dimensional arrays; it raises when the lengths differ.\<close>

fun dot :: "int list \<Rightarrow> real list \<Rightarrow> real option" where
  "dot [] [] = Some 0"
| "dot (q # qs) (t # ts) = (case dot qs ts of None \<Rightarrow> None | Some s \<Rightarrow> Some (of_int q * t + s))"
| "dot _ _ = None"

text \<open>The expression \<open>q_matrix.get(question_id, [1] * len(proficiency))\<close>.\<close>

definition q_vector_of :: "q_matrix \<Rightarrow> string \<Rightarrow> real list \<Rightarrow> int list" where
  "q_vector_of qm qid proficiency =
     (case qm qid of None \<Rightarrow> replicate (length proficiency) 1 | Some v \<Rightarrow> v)"

text \<open>
  \<open>_calculate_probability\<close>: the only exception well-typed input can raise is the
  \<open>ValueError\<close> of \<open>np.dot\<close>; the handler returns 0.5.
\<close>

definition calculate_probability :: "real list \<Rightarrow> question \<Rightarrow> q_matrix \<Rightarrow> real" where
  "calculate_probability proficiency q qm =
     (let q_vector = q_vector_of qm (q_id q) proficiency;
          a = (case discrimination q of None \<Rightarrow> 1 | Some d \<Rightarrow> d);
          b = (case difficulty q of None \<Rightarrow> 0 | Some d \<Rightarrow> d)
      in case dot q_vector proficiency of
           None \<Rightarrow> 0.5
         | Some d \<Rightarrow> clip (expit (a * d - b)) 0.01 0.99)"

definition calculate_information :: "question \<Rightarrow> real list \<Rightarrow> q_matrix \<Rightarrow> real" where
  "calculate_information q proficiency qm =
     (let prob = calculate_probability proficiency q qm;
          a = (case discrimination q of None \<Rightarrow> 1 | Some d \<Rightarrow> d)
      in a ^ 2 * prob * (1 - prob))"

text \<open>The loop of \<open>select_next_question\<close> over the available questions.\<close>

fun select_loop :: "question list \<Rightarrow> real list \<Rightarrow> q_matrix \<Rightarrow> real \<Rightarrow> question \<Rightarrow> question" where
  "select_loop [] proficiency qm max_info best = best"
| "select_loop (q # qs) proficiency qm max_info best =
     (let info = calculate_information q proficiency qm
      in if info > max_info then select_loop qs proficiency qm info q
         else select_loop qs proficiency qm max_info best)"

text \<open>
  \<open>select_next_question\<close>; \<open>None\<close> is the empty dictionary \<open>{}\<close>. The handler
  of its \<open>try\<close> is reached only by a missing key of a malformed dictionary, which the
  record types exclude.
\<close>

definition available_questions :: "question list \<Rightarrow> response_row list \<Rightarrow> question list" where
  "available_questions questions responses =
     filter (\<lambda>q. q_id q \<notin> set (map question_id responses)) questions"

definition select_next_question ::
  "question list \<Rightarrow> q_matrix \<Rightarrow> real list \<Rightarrow> response_row list \<Rightarrow> question option" where
  "select_next_question questions qm proficiency responses =
     (case available_questions questions responses of
        [] \<Rightarrow> None
      | q0 # rest \<Rightarrow> Some (select_loop (q0 # rest) proficiency qm (- 1) q0))"

text \<open>
  \<open>update_ability\<close>. \<open>gradient\<close> has the length of the Q-vector, and numpy adds it to
  the proficiency array by broadcasting: elementwise for equal lengths, a length-one array
  is stretched over the other, and any other pair of lengths raises, on which the handler
  returns the proficiency unchanged.
\<close>

definition update_ability :: "real list \<Rightarrow> question \<Rightarrow> int \<Rightarrow> q_matrix \<Rightarrow> real list" where
  "update_ability current_proficiency q resp qm =
     (let q_vector = q_vector_of qm (q_id q) current_proficiency;
          prob = calculate_probability current_proficiency q qm;
          err = of_int resp - prob;
          a = (case discrimination q of None \<Rightarrow> 1 | Some d \<Rightarrow> d);
          gradient = map (\<lambda>v. err * prob * (1 - prob) * a * of_int v) q_vector;
          step = (\<lambda>t g. clip (t + learning_rate * g) (- 3) 3)
      in if length q_vector = length current_proficiency
           then map2 step current_proficiency gradient
         else if length q_vector = 1
           then map (\<lambda>t. step t (hd gradient)) current_proficiency
         else if length current_proficiency = 1
           then map (\<lambda>g. step (hd current_proficiency) g) gradient
         else current_proficiency)"

text \<open>\<open>np.mean\<close> and \<open>np.var\<close> (population variance) of a non-empty list.\<close>

definition mean :: "real list \<Rightarrow> real" where
  "mean xs = sum_list xs / of_nat (length xs)"

definition var :: "real list \<Rightarrow> real" where
  "var xs = mean (map (\<lambda>x. (x - mean xs) ^ 2) xs)"

text \<open>\<open>[p[i] for p in recent]\<close>; an index past the end of a snapshot raises.\<close>

fun column :: "real list list \<Rightarrow> nat \<Rightarrow> real list option" where
  "column [] i = Some []"
| "column (p # ps) i =
     (if i < length p
      then (case column ps i of None \<Rightarrow> None | Some c \<Rightarrow> Some (p ! i # c))
      else None)"

fun variances_loop :: "real list list \<Rightarrow> nat list \<Rightarrow> real list option" where
  "variances_loop recent [] = Some []"
| "variances_loop recent (i # is) =
     (case column recent i of
        None \<Rightarrow> None
      | Some c \<Rightarrow>
          (case variances_loop recent is of
             None \<Rightarrow> None
           | Some vs \<Rightarrow> Some (if length c > 1 then var c # vs else vs)))"

text \<open>\<open>_estimate_precision\<close>; \<open>None\<close> is the \<open>IndexError\<close> it lets escape.\<close>

definition estimate_precision :: "response_row list \<Rightarrow> real list \<Rightarrow> real option" where
  "estimate_precision responses proficiency =
     (if length responses < 2 then Some 1
      else let recent = map proficiency_after (drop (length responses - 5) responses)
           in if length recent < 2 then Some 1
              else (case variances_loop recent [0 ..< length proficiency] of
                      None \<Rightarrow> None
                    | Some variances \<Rightarrow>
                        (let avg_variance = (if variances = [] then 1 else mean variances)
                         in Some (1 / (1 + avg_variance)))))"

text \<open>
  \<open>_estimate_classification_confidence\<close>; on an empty proficiency \<open>np.mean\<close> is NaN,
  and so is the result: \<open>None\<close>.
\<close>

definition estimate_classification_confidence :: "real list \<Rightarrow> real option" where
  "estimate_classification_confidence proficiency =
     (if proficiency = [] then None
      else Some (min (mean (map abs proficiency) / 2) 1))"

text \<open>
  \<open>should_continue\<close>. An escaped exception and a comparison with NaN both give
  \<open>False\<close>.
\<close>

definition should_continue :: "response_row list \<Rightarrow> real list \<Rightarrow> end_criteria \<Rightarrow> bool" where
  "should_continue responses proficiency ec =
     (let num_responses = int (length responses);
          criteria_type = (case ec_type ec of None \<Rightarrow> ''fixed_length'' | Some t \<Rightarrow> t);
          min_q = (case min_questions ec of None \<Rightarrow> 5 | Some m \<Rightarrow> m);
          max_q = (case max_questions ec of None \<Rightarrow> 20 | Some m \<Rightarrow> m)
      in if num_responses < min_q then True
         else if num_responses \<ge> max_q then False
         else if criteria_type = ''fixed_length'' then num_responses < max_q
         else if criteria_type = ''precision'' then
           (let threshold = (case precision_threshold ec of None \<Rightarrow> 0.3 | Some t \<Rightarrow> t)
            in case estimate_precision responses proficiency of
                 None \<Rightarrow> False
               | Some current_precision \<Rightarrow> current_precision > threshold)
         else if criteria_type = ''classification'' then
           (let threshold = (case classification_threshold ec of None \<Rightarrow> 0.8 | Some t \<Rightarrow> t)
            in case estimate_classification_confidence proficiency of
                 None \<Rightarrow> False
               | Some confidence \<Rightarrow> confidence < threshold)
         else False)"

section \<open>Hot store (services/redis\_service.py)\<close>

text \<open>
  The session state dictionary that \<open>start_test\<close> builds and Redis holds as JSON.
  \<open>last_activity\<close> is absent until \<open>store_session_state\<close> sets it.
\<close>

record session_state =
  student_id :: string
  question_pool_id :: "string option"
  current_proficiency :: "real list"
  next_question_id :: string
  status :: string
  questions_answered :: int
  correct_count :: int
  st_end_criteria :: end_criteria
  last_activity :: "timestamp option"

text \<open>
  A question pool in its internal format. \<open>cache_tier\<close> and \<open>cached_at\<close> are set by the
  tier that served or cached it. Per-question and per-pool keys that no modelled function
  reads (guessing, the hierarchy ids, metadata) are left out.
\<close>

record pool_data =
  pool_id :: string
  level :: string
  level_id :: string
  attribute_count :: nat
  attributes :: "string list"
  questions :: "question list"
  total_questions :: nat
  cache_tier :: "string option"
  cached_at :: "timestamp option"

text \<open>
  Redis as a map from keys to a value and the time at which the key expires. The values
  are the JSON documents the service writes; the four key prefixes keep them apart.
  \<open>redis_up = False\<close> is a client whose every call raises.
\<close>

datatype redis_value =
    SessionJson session_state
  | LockFlag
  | PoolJson pool_data
  | QuestionJson question

record redis_service =
  redis_up :: bool
  redis_kv :: "string \<rightharpoonup> redis_value \<times> timestamp"

definition client_get :: "redis_service \<Rightarrow> timestamp \<Rightarrow> string \<Rightarrow> redis_value option" where
  "client_get r now key =
     (case redis_kv r key of
        None \<Rightarrow> None
      | Some (v, expires) \<Rightarrow> if now < expires then Some v else None)"

definition client_setex :: "redis_service \<Rightarrow> timestamp \<Rightarrow> string \<Rightarrow> nat \<Rightarrow> redis_value \<Rightarrow> redis_service" where
  "client_setex r now key ttl v = r\<lparr>redis_kv := (redis_kv r)(key \<mapsto> (v, now + ttl))\<rparr>"

text \<open>\<open>client.delete\<close>: whether a live key was removed, and the store without the key.\<close>

definition client_delete :: "redis_service \<Rightarrow> timestamp \<Rightarrow> string \<Rightarrow> bool \<times> redis_service" where
  "client_delete r now key =
     (client_get r now key \<noteq> None, r\<lparr>redis_kv := (redis_kv r)(key := None)\<rparr>)"

definition session_key :: "string \<Rightarrow> string" where
  "session_key session_id = ''session:'' @ session_id @ '':state''"

definition lock_key :: "string \<Rightarrow> string \<Rightarrow> string" where
  "lock_key session_id qid = ''lock:'' @ session_id @ '':'' @ qid"

definition pool_key :: "string \<Rightarrow> string" where
  "pool_key pid = ''pool:'' @ pid"

definition question_key :: "string \<Rightarrow> string" where
  "question_key qid = ''question:'' @ qid"

text \<open>The 30-minute inactivity timeout of a session key, in seconds.\<close>

definition session_ttl :: nat where
  "session_ttl = 30 * 60"

definition store_session_state ::
  "string \<Rightarrow> session_state \<Rightarrow> timestamp \<Rightarrow> redis_service \<Rightarrow> bool \<times> redis_service" where
  "store_session_state session_id state now r =
     (let state' = state\<lparr>last_activity := Some now\<rparr>
      in if \<not> redis_up r then (False, r)
         else (True, client_setex r now (session_key session_id) session_ttl (SessionJson state')))"

definition get_session_state :: "string \<Rightarrow> timestamp \<Rightarrow> redis_service \<Rightarrow> session_state option" where
  "get_session_state session_id now r =
     (if \<not> redis_up r then None
      else case client_get r now (session_key session_id) of
             Some (SessionJson s) \<Rightarrow> Some s
           | _ \<Rightarrow> None)"

definition update_session_proficiency ::
  "string \<Rightarrow> real list \<Rightarrow> int \<Rightarrow> timestamp \<Rightarrow> redis_service \<Rightarrow> bool \<times> redis_service" where
  "update_session_proficiency session_id proficiency answered now r =
     (case get_session_state session_id now r of
        None \<Rightarrow> (False, r)
      | Some state \<Rightarrow>
          store_session_state session_id
            (state\<lparr>current_proficiency := proficiency, questions_answered := answered,
                   last_activity := Some now\<rparr>) now r)"

definition delete_session_state :: "string \<Rightarrow> timestamp \<Rightarrow> redis_service \<Rightarrow> bool \<times> redis_service" where
  "delete_session_state session_id now r =
     (if \<not> redis_up r then (False, r) else client_delete r now (session_key session_id))"

text \<open>\<open>SET key "1" NX EX 5\<close>: set only if the key is not live.\<close>

definition acquire_submission_lock ::
  "string \<Rightarrow> string \<Rightarrow> timestamp \<Rightarrow> redis_service \<Rightarrow> bool \<times> redis_service" where
  "acquire_submission_lock session_id qid now r =
     (if \<not> redis_up r then (False, r)
      else if client_get r now (lock_key session_id qid) \<noteq> None then (False, r)
      else (True, client_setex r now (lock_key session_id qid) 5 LockFlag))"

definition release_submission_lock ::
  "string \<Rightarrow> string \<Rightarrow> timestamp \<Rightarrow> redis_service \<Rightarrow> bool \<times> redis_service" where
  "release_submission_lock session_id qid now r =
     (if \<not> redis_up r then (False, r) else client_delete r now (lock_key session_id qid))"

text \<open>
  \<open>cache_question_pool\<close> (Tier 1) stamps the caller's dictionary before it writes, so the
  caller's pool carries the stamp whether or not the write succeeds: the stamped pool is
  returned with the result.
\<close>

definition redis_cache_question_pool ::
  "string \<Rightarrow> pool_data \<Rightarrow> timestamp \<Rightarrow> redis_service \<Rightarrow> bool \<times> pool_data \<times> redis_service" where
  "redis_cache_question_pool pid pool now r =
     (let pool' = pool\<lparr>cached_at := Some now, cache_tier := Some ''redis''\<rparr>
      in if \<not> redis_up r then (False, pool', r)
         else (True, pool', client_setex r now (pool_key pid) (24 * 3600) (PoolJson pool')))"

definition redis_get_cached_question_pool ::
  "string \<Rightarrow> timestamp \<Rightarrow> redis_service \<Rightarrow> pool_data option" where
  "redis_get_cached_question_pool pid now r =
     (if \<not> redis_up r then None
      else case client_get r now (pool_key pid) of
             Some (PoolJson p) \<Rightarrow> Some p
           | _ \<Rightarrow> None)"

text \<open>\<open>cache_question\<close> drops the correct answer before it caches a question.\<close>

definition cache_question :: "string \<Rightarrow> question \<Rightarrow> timestamp \<Rightarrow> redis_service \<Rightarrow> bool \<times> redis_service" where
  "cache_question qid question_data now r =
     (let safe_question = question_data\<lparr>correct_answer := None\<rparr>
      in if \<not> redis_up r then (False, r)
         else (True, client_setex r now (question_key qid) 3600 (QuestionJson safe_question)))"

definition get_cached_question :: "string \<Rightarrow> timestamp \<Rightarrow> redis_service \<Rightarrow> question option" where
  "get_cached_question qid now r =
     (if \<not> redis_up r then None
      else case client_get r now (question_key qid) of
             Some (QuestionJson q) \<Rightarrow> Some q
           | _ \<Rightarrow> None)"

section \<open>Warm store (services/supabase\_service.py)\<close>

text \<open>
  The tables as lists of rows in insertion order, with the columns the modelled functions
  read or write. \<open>supabase_up = False\<close> is a client whose every call raises; every method
  but \<open>get_or_create_student\<close> catches that and returns its failure value.
\<close>

record student_row =
  s_id :: string
  s_created_at :: timestamp
  s_updated_at :: timestamp

record proficiency_row =
  p_id :: nat
  p_student_id :: string
  concept_name :: string
  proficiency_value :: real
  confidence :: real
  p_created_at :: timestamp
  p_updated_at :: timestamp

record session_row =
  sr_id :: string
  sr_student_id :: string
  sr_question_pool_id :: "string option"
  sr_status :: "string option"
  initial_proficiency :: "real list"
  final_proficiency :: "real list option"
  sr_total_questions :: "int option"
  correct_responses :: int
  accuracy :: "real option"
  started_at :: timestamp
  sr_last_activity :: timestamp
  completed_at :: "timestamp option"

record pool_row =
  plr_id :: string
  plr_level :: string
  plr_level_id :: string
  plr_attribute_count :: nat
  plr_attributes :: "string list"
  plr_total_questions :: nat
  plr_cached_at :: timestamp
  expires_at :: timestamp

record question_row =
  qr_id :: string
  qr_pool_id :: string
  qr_content :: string
  qr_options :: "string list"
  qr_correct_answer :: string
  qr_concepts :: "int list"
  qr_difficulty :: real
  qr_discrimination :: real

record supabase_service =
  supabase_up :: bool
  students :: "student_row list"
  student_proficiencies :: "proficiency_row list"
  test_responses :: "response_row list"
  test_sessions :: "session_row list"
  question_pools :: "pool_row list"
  questions_table :: "question_row list"

text \<open>\<open>Config.SUPABASE_CACHE_EXPIRY\<close>, at its default of seven days.\<close>

definition supabase_cache_expiry :: nat where
  "supabase_cache_expiry = 604800"

text \<open>
  \<open>create_user_proficiency\<close>: one row per concept name; a concept past the end of the
  proficiency list gets 0.5. The row id is the table's serial key.
\<close>

fun proficiency_records ::
  "string \<Rightarrow> real list \<Rightarrow> string list \<Rightarrow> nat \<Rightarrow> timestamp \<Rightarrow> nat \<Rightarrow> proficiency_row list" where
  "proficiency_records sid proficiency [] i now next_id = []"
| "proficiency_records sid proficiency (c # cs) i now next_id =
     \<lparr>p_id = next_id, p_student_id = sid, concept_name = c,
      proficiency_value = (if i < length proficiency then proficiency ! i else 0.5),
      confidence = 0, p_created_at = now, p_updated_at = now\<rparr>
     # proficiency_records sid proficiency cs (Suc i) now (Suc next_id)"

definition create_user_proficiency ::
  "string \<Rightarrow> real list \<Rightarrow> string list \<Rightarrow> timestamp \<Rightarrow> supabase_service \<Rightarrow> bool \<times> supabase_service" where
  "create_user_proficiency sid proficiency concept_names now db =
     (if \<not> supabase_up db then (False, db)
      else (True, db\<lparr>student_proficiencies := student_proficiencies db
              @ proficiency_records sid proficiency concept_names 0 now
                  (length (student_proficiencies db))\<rparr>))"

text \<open>\<open>get_or_create_student\<close>; \<open>None\<close> is the exception it re-raises.\<close>

definition get_or_create_student ::
  "string \<Rightarrow> string list \<Rightarrow> timestamp \<Rightarrow> supabase_service \<Rightarrow> (student_row \<times> supabase_service) option" where
  "get_or_create_student sid concept_names now db =
     (if \<not> supabase_up db then None
      else case filter (\<lambda>s. s_id s = sid) (students db) of
             s # _ \<Rightarrow> Some (s, db)
           | [] \<Rightarrow>
               (let student_data = \<lparr>s_id = sid, s_created_at = now, s_updated_at = now\<rparr>;
                    db1 = db\<lparr>students := students db @ [student_data]\<rparr>;
                    db2 = snd (create_user_proficiency sid
                                 (replicate (length concept_names) 0.5) concept_names now db1)
                in Some (student_data, db2)))"

text \<open>The rows of a student, ordered by concept name.\<close>

definition student_proficiency_rows :: "string \<Rightarrow> supabase_service \<Rightarrow> proficiency_row list" where
  "student_proficiency_rows sid db =
     sort_key concept_name (filter (\<lambda>p. p_student_id p = sid) (student_proficiencies db))"

definition get_current_proficiency :: "string \<Rightarrow> supabase_service \<Rightarrow> real list" where
  "get_current_proficiency sid db =
     (if \<not> supabase_up db then []
      else map proficiency_value (student_proficiency_rows sid db))"

text \<open>The loop of \<open>update_user_proficiency\<close>: one update by row id per fetched row.\<close>

fun update_proficiency_rows ::
  "(nat \<times> real) list \<Rightarrow> timestamp \<Rightarrow> proficiency_row list \<Rightarrow> proficiency_row list" where
  "update_proficiency_rows [] now tbl = tbl"
| "update_proficiency_rows ((rid, v) # us) now tbl =
     update_proficiency_rows us now
       (map (\<lambda>p. if p_id p = rid then p\<lparr>proficiency_value := v, p_updated_at := now\<rparr> else p) tbl)"

definition update_user_proficiency ::
  "string \<Rightarrow> real list \<Rightarrow> timestamp \<Rightarrow> supabase_service \<Rightarrow> bool \<times> supabase_service" where
  "update_user_proficiency sid proficiency now db =
     (if \<not> supabase_up db then (False, db)
      else let rows = student_proficiency_rows sid db
           in if rows = [] \<or> length rows \<noteq> length proficiency then (False, db)
              else (True, db\<lparr>student_proficiencies :=
                       update_proficiency_rows (zip (map p_id rows) proficiency) now
                         (student_proficiencies db)\<rparr>))"

text \<open>\<open>store_response\<close>: a plain insert.\<close>

definition store_response ::
  "string \<Rightarrow> string \<Rightarrow> string \<Rightarrow> int \<Rightarrow> real list \<Rightarrow> real list \<Rightarrow> timestamp
     \<Rightarrow> supabase_service \<Rightarrow> bool \<times> supabase_service" where
  "store_response sid session_id qid resp before after now db =
     (if \<not> supabase_up db then (False, db)
      else (True, db\<lparr>test_responses := test_responses db @
              [\<lparr>r_student_id = sid, r_session_id = session_id, question_id = qid,
                response = resp, is_correct = resp, proficiency_before = before,
                proficiency_after = after, r_timestamp = now\<rparr>]\<rparr>))"

text \<open>\<open>get_user_responses\<close>; an empty session id is falsy and filters nothing.\<close>

definition get_user_responses :: "string \<Rightarrow> string \<Rightarrow> supabase_service \<Rightarrow> response_row list" where
  "get_user_responses sid session_id db =
     (if \<not> supabase_up db then []
      else sort_key r_timestamp
             (filter (\<lambda>r. r_student_id r = sid \<and> (session_id = [] \<or> r_session_id r = session_id))
                (test_responses db)))"

definition create_session ::
  "string \<Rightarrow> string \<Rightarrow> string option \<Rightarrow> real list \<Rightarrow> timestamp \<Rightarrow> supabase_service
     \<Rightarrow> bool \<times> supabase_service" where
  "create_session session_id sid pool proficiency now db =
     (if \<not> supabase_up db then (False, db)
      else (True, db\<lparr>test_sessions := test_sessions db @
              [\<lparr>sr_id = session_id, sr_student_id = sid, sr_question_pool_id = pool,
                sr_status = Some ''active'', initial_proficiency = proficiency,
                final_proficiency = None, sr_total_questions = Some 0, correct_responses = 0,
                accuracy = None, started_at = now, sr_last_activity = now,
                completed_at = None\<rparr>]\<rparr>))"

definition get_session :: "string \<Rightarrow> supabase_service \<Rightarrow> session_row option" where
  "get_session session_id db =
     (if \<not> supabase_up db then None
      else case filter (\<lambda>s. sr_id s = session_id) (test_sessions db) of
             [] \<Rightarrow> None
           | s # _ \<Rightarrow> Some s)"

definition update_session_activity :: "string \<Rightarrow> timestamp \<Rightarrow> supabase_service \<Rightarrow> bool \<times> supabase_service" where
  "update_session_activity session_id now db =
     (if \<not> supabase_up db then (False, db)
      else (True, db\<lparr>test_sessions :=
              map (\<lambda>s. if sr_id s = session_id then s\<lparr>sr_last_activity := now\<rparr> else s)
                (test_sessions db)\<rparr>))"

text \<open>Python's \<open>correct / total if total > 0 else 0\<close>.\<close>

definition accuracy_of :: "int \<Rightarrow> int \<Rightarrow> real" where
  "accuracy_of correct answered = (if answered > 0 then of_int correct / of_int answered else 0)"

definition complete_session ::
  "string \<Rightarrow> real list \<Rightarrow> int \<Rightarrow> int \<Rightarrow> timestamp \<Rightarrow> supabase_service \<Rightarrow> bool \<times> supabase_service" where
  "complete_session session_id final answered correct now db =
     (if \<not> supabase_up db then (False, db)
      else (True, db\<lparr>test_sessions :=
              map (\<lambda>s. if sr_id s = session_id
                        then s\<lparr>sr_status := Some ''completed'', final_proficiency := Some final,
                               sr_total_questions := Some answered, correct_responses := correct,
                               accuracy := Some (accuracy_of correct answered),
                               completed_at := Some now\<rparr>
                        else s)
                (test_sessions db)\<rparr>))"

text \<open>The question dictionary that the warm store's readers build from a row.\<close>

definition question_of_row :: "question_row \<Rightarrow> question" where
  "question_of_row row =
     \<lparr>q_id = qr_id row, content = qr_content row, options = qr_options row,
      correct_answer = Some (qr_correct_answer row), concepts = Some (qr_concepts row),
      difficulty = Some (qr_difficulty row), discrimination = Some (qr_discrimination row)\<rparr>"

definition get_questions_by_pool :: "string \<Rightarrow> supabase_service \<Rightarrow> question list" where
  "get_questions_by_pool pid db =
     (if \<not> supabase_up db then []
      else map question_of_row (filter (\<lambda>row. qr_pool_id row = pid) (questions_table db)))"

definition supabase_get_question_by_id :: "string \<Rightarrow> supabase_service \<Rightarrow> question option" where
  "supabase_get_question_by_id qid db =
     (if \<not> supabase_up db then None
      else case filter (\<lambda>row. qr_id row = qid) (questions_table db) of
             [] \<Rightarrow> None
           | row # _ \<Rightarrow> Some (question_of_row row))"

text \<open>
  The row that \<open>cache_question_pool\<close> builds from a pool question; \<open>None\<close> is the
  \<open>KeyError\<close> of a question without its correct answer.
\<close>

definition row_of_question :: "string \<Rightarrow> question \<Rightarrow> question_row option" where
  "row_of_question pid q =
     (case correct_answer q of
        None \<Rightarrow> None
      | Some answer \<Rightarrow>
          Some \<lparr>qr_id = q_id q, qr_pool_id = pid, qr_content = content q,
                qr_options = options q, qr_correct_answer = answer,
                qr_concepts = (case concepts q of None \<Rightarrow> [1, 0, 0, 0, 0] | Some c \<Rightarrow> c),
                qr_difficulty = (case difficulty q of None \<Rightarrow> 0.5 | Some d \<Rightarrow> d),
                qr_discrimination = (case discrimination q of None \<Rightarrow> 1 | Some d \<Rightarrow> d)\<rparr>)"

fun rows_of_questions :: "string \<Rightarrow> question list \<Rightarrow> question_row list option" where
  "rows_of_questions pid [] = Some []"
| "rows_of_questions pid (q # qs) =
     (case row_of_question pid q of
        None \<Rightarrow> None
      | Some row \<Rightarrow>
          (case rows_of_questions pid qs of None \<Rightarrow> None | Some rows \<Rightarrow> Some (row # rows)))"

text \<open>An upsert by primary key: replace the row of that key, or append.\<close>

definition upsert_row :: "('a \<Rightarrow> string) \<Rightarrow> 'a \<Rightarrow> 'a list \<Rightarrow> 'a list" where
  "upsert_row key row tbl =
     (if \<exists>x\<in>set tbl. key x = key row
      then map (\<lambda>x. if key x = key row then row else x) tbl
      else tbl @ [row])"

definition supabase_invalidate_question_pool :: "string \<Rightarrow> supabase_service \<Rightarrow> bool \<times> supabase_service" where
  "supabase_invalidate_question_pool pid db =
     (if \<not> supabase_up db then (False, db)
      else (True, db\<lparr>questions_table := filter (\<lambda>row. qr_pool_id row \<noteq> pid) (questions_table db),
                      question_pools := filter (\<lambda>row. plr_id row \<noteq> pid) (question_pools db)\<rparr>))"

text \<open>
  \<open>cache_question_pool\<close> (Tier 2): the pool row is upserted before the question rows
  are built, so it stays when a question makes the method fail.
\<close>

definition supabase_cache_question_pool ::
  "string \<Rightarrow> pool_data \<Rightarrow> timestamp \<Rightarrow> supabase_service \<Rightarrow> bool \<times> supabase_service" where
  "supabase_cache_question_pool pid pool now db =
     (if \<not> supabase_up db then (False, db)
      else let pool_metadata =
                 \<lparr>plr_id = pid, plr_level = level pool, plr_level_id = level_id pool,
                  plr_attribute_count = attribute_count pool, plr_attributes = attributes pool,
                  plr_total_questions = total_questions pool, plr_cached_at = now,
                  expires_at = now + supabase_cache_expiry\<rparr>;
               db1 = db\<lparr>question_pools := upsert_row plr_id pool_metadata (question_pools db)\<rparr>
           in if questions pool = [] then (True, db1)
              else (case rows_of_questions pid (questions pool) of
                      None \<Rightarrow> (False, db1)
                    | Some rows \<Rightarrow>
                        (True, db1\<lparr>questions_table := foldl (\<lambda>tbl row. upsert_row qr_id row tbl)
                                                        (questions_table db1) rows\<rparr>)))"

text \<open>
  \<open>get_cached_question_pool\<close> (Tier 2): an expired pool is deleted and reported as a
  miss.
\<close>

definition supabase_get_cached_question_pool ::
  "string \<Rightarrow> timestamp \<Rightarrow> supabase_service \<Rightarrow> pool_data option \<times> supabase_service" where
  "supabase_get_cached_question_pool pid now db =
     (if \<not> supabase_up db then (None, db)
      else case filter (\<lambda>row. plr_id row = pid) (question_pools db) of
             [] \<Rightarrow> (None, db)
           | pool_meta # _ \<Rightarrow>
               if expires_at pool_meta < now
               then (None, snd (supabase_invalidate_question_pool pid db))
               else (let qs = map question_of_row
                                (filter (\<lambda>row. qr_pool_id row = pid) (questions_table db))
                     in (Some \<lparr>pool_id = pid, level = plr_level pool_meta,
                               level_id = plr_level_id pool_meta,
                               attribute_count = plr_attribute_count pool_meta,
                               attributes = plr_attributes pool_meta, questions = qs,
                               total_questions = length qs, cache_tier = Some ''supabase'',
                               cached_at = Some (plr_cached_at pool_meta)\<rparr>, db)))"

section \<open>Remote source (services/external\_api\_service.py)\<close>

text \<open>An exception that escapes a function, or its return value.\<close>

datatype 'a outcome = Raised | Returned 'a

record pagination =
  pg_page :: "int option"
  total_pages :: "int option"
  has_more :: "bool option"

record raw_question =
  rq_id :: string
  rq_content :: string
  rq_options :: "string list option"
  rq_correct_answer :: "string option"
  rq_q_vector :: "int list option"
  rq_difficulty :: "real option"
  rq_discrimination :: "real option"

record raw_page =
  rp_level :: string
  rp_level_id :: string
  rp_attribute_count :: "nat option"
  rp_attributes :: "string list option"
  rp_questions :: "raw_question list option"
  rp_pagination :: "pagination option"
  fetched_at :: "timestamp option"

text \<open>
  What \<open>_make_request\<close> returns for a level, a level id and a page: the JSON body of a
  200 response, or \<open>None\<close> for every other status, a timeout or a connection error.
\<close>

type_synonym remote = "string \<Rightarrow> string \<Rightarrow> nat \<Rightarrow> raw_page option"

definition valid_levels :: "string list" where
  "valid_levels = [''topic'', ''chapter'', ''subject'', ''class'', ''exam'']"

definition fetch_question_pool :: "remote \<Rightarrow> string \<Rightarrow> string \<Rightarrow> nat \<Rightarrow> timestamp \<Rightarrow> raw_page option" where
  "fetch_question_pool api lvl lvl_id page now =
     (if lvl \<notin> set valid_levels then None
      else case api lvl lvl_id page of
             None \<Rightarrow> None
           | Some data \<Rightarrow> Some (data\<lparr>fetched_at := Some now\<rparr>))"

text \<open>
  The page loop of \<open>fetch_all_pages\<close>: a failed page ends it with what was gathered; a
  page without its questions key raises.
\<close>

fun fetch_pages ::
  "(nat \<Rightarrow> raw_page option) \<Rightarrow> nat list \<Rightarrow> raw_question list \<Rightarrow> raw_question list outcome" where
  "fetch_pages fetch [] all_questions = Returned all_questions"
| "fetch_pages fetch (page # pages) all_questions =
     (case fetch page of
        None \<Rightarrow> Returned all_questions
      | Some page_data \<Rightarrow>
          (case rp_questions page_data of
             None \<Rightarrow> Raised
           | Some qs \<Rightarrow> fetch_pages fetch pages (all_questions @ qs)))"

definition fetch_all_pages ::
  "remote \<Rightarrow> string \<Rightarrow> string \<Rightarrow> timestamp \<Rightarrow> raw_page option outcome" where
  "fetch_all_pages api lvl lvl_id now =
     (case fetch_question_pool api lvl lvl_id 1 now of
        None \<Rightarrow> Returned None
      | Some first_page \<Rightarrow>
          (case rp_pagination first_page of
             None \<Rightarrow> Returned (Some first_page)
           | Some pg \<Rightarrow>
               if \<not> (case has_more pg of None \<Rightarrow> False | Some b \<Rightarrow> b)
               then Returned (Some first_page)
               else (case rp_questions first_page of
                       None \<Rightarrow> Raised
                     | Some first_questions \<Rightarrow>
                         (let n = (case total_pages pg of None \<Rightarrow> 1 | Some t \<Rightarrow> t)
                          in case fetch_pages (\<lambda>page. fetch_question_pool api lvl lvl_id page now)
                                    [2 ..< nat (n + 1)] first_questions of
                               Raised \<Rightarrow> Raised
                             | Returned all_questions \<Rightarrow>
                                 Returned (Some (first_page
                                   \<lparr>rp_questions := Some all_questions,
                                    rp_pagination := Some (pg\<lparr>pg_page := Some 1,
                                       total_pages := Some 1, has_more := Some False\<rparr>)\<rparr>))))))"

text \<open>
  \<open>transform_to_internal_format\<close>; a raw question without its correct answer raises.
\<close>

fun transform_questions :: "raw_question list \<Rightarrow> question list outcome" where
  "transform_questions [] = Returned []"
| "transform_questions (q # qs) =
     (case rq_correct_answer q of
        None \<Rightarrow> Raised
      | Some answer \<Rightarrow>
          (case transform_questions qs of
             Raised \<Rightarrow> Raised
           | Returned rest \<Rightarrow>
               Returned (\<lparr>q_id = rq_id q, content = rq_content q,
                  options = (case rq_options q of None \<Rightarrow> [] | Some os \<Rightarrow> os),
                  correct_answer = Some answer,
                  concepts = Some (case rq_q_vector q of None \<Rightarrow> [1, 0, 0, 0, 0] | Some v \<Rightarrow> v),
                  difficulty = Some (case rq_difficulty q of None \<Rightarrow> 0.5 | Some d \<Rightarrow> d),
                  discrimination = Some (case rq_discrimination q of None \<Rightarrow> 1 | Some d \<Rightarrow> d)\<rparr>
                 # rest)))"

definition transform_to_internal_format :: "raw_page \<Rightarrow> pool_data outcome" where
  "transform_to_internal_format external_data =
     (case transform_questions (case rp_questions external_data of None \<Rightarrow> [] | Some qs \<Rightarrow> qs) of
        Raised \<Rightarrow> Raised
      | Returned internal_questions \<Rightarrow>
          (let attrs = (case rp_attributes external_data of None \<Rightarrow> [] | Some a \<Rightarrow> a)
           in Returned
                \<lparr>pool_id = rp_level external_data @ ''_'' @ rp_level_id external_data,
                 level = rp_level external_data, level_id = rp_level_id external_data,
                 attribute_count = (case rp_attribute_count external_data of
                                      None \<Rightarrow> length attrs | Some n \<Rightarrow> n),
                 attributes = attrs, questions = internal_questions,
                 total_questions = length internal_questions,
                 cache_tier = None, cached_at = None\<rparr>))"

section \<open>Cache manager (services/cache\_manager.py)\<close>

record cache_stats =
  redis_hits :: nat
  redis_misses :: nat
  supabase_hits :: nat
  supabase_misses :: nat
  external_api_calls :: nat
  total_requests :: nat

text \<open>The process: the two stores, the remote source and the manager's counters.\<close>

record world =
  redis :: redis_service
  supabase :: supabase_service
  external_api :: remote
  stats :: cache_stats

definition cache_to_redis :: "string \<Rightarrow> pool_data \<Rightarrow> timestamp \<Rightarrow> world \<Rightarrow> bool \<times> pool_data \<times> world" where
  "cache_to_redis pid pool now w =
     (case redis_cache_question_pool pid pool now (redis w) of
        (ok, pool', r') \<Rightarrow> (True, pool', w\<lparr>redis := r'\<rparr>))"

definition cache_to_supabase :: "string \<Rightarrow> pool_data \<Rightarrow> timestamp \<Rightarrow> world \<Rightarrow> bool \<times> world" where
  "cache_to_supabase pid pool now w =
     (case supabase_cache_question_pool pid pool now (supabase w) of
        (ok, db') \<Rightarrow> (True, w\<lparr>supabase := db'\<rparr>))"

text \<open>Write-through: the warm store first, then the hot store.\<close>

definition cache_to_all_tiers :: "string \<Rightarrow> pool_data \<Rightarrow> timestamp \<Rightarrow> world \<Rightarrow> bool \<times> pool_data \<times> world" where
  "cache_to_all_tiers pid pool now w =
     (case cache_to_supabase pid pool now w of
        (ok2, w1) \<Rightarrow>
          (case cache_to_redis pid pool now w1 of
             (ok1, pool', w2) \<Rightarrow> (ok2 \<and> ok1, pool', w2)))"

text \<open>The Tier 3 block of \<open>get_question_pool\<close>, after the call counter is bumped.\<close>

definition tier3_fetch :: "string \<Rightarrow> string \<Rightarrow> bool \<Rightarrow> timestamp \<Rightarrow> world \<Rightarrow> pool_data option" where
  "tier3_fetch lvl lvl_id all_pages now w =
     (case (if all_pages then fetch_all_pages (external_api w) lvl lvl_id now
            else Returned (fetch_question_pool (external_api w) lvl lvl_id 1 now)) of
        Raised \<Rightarrow> None
      | Returned None \<Rightarrow> None
      | Returned (Some raw_data) \<Rightarrow>
          (case transform_to_internal_format raw_data of
             Raised \<Rightarrow> None
           | Returned pool \<Rightarrow> Some pool))"

text \<open>
  \<open>get_question_pool\<close>. Both store services catch every exception of their clients
  themselves and return \<open>None\<close>, so a failing tier arrives here as a miss; the handlers
  of the first two \<open>try\<close> blocks are not reached.
\<close>

definition get_question_pool ::
  "string \<Rightarrow> string \<Rightarrow> bool \<Rightarrow> timestamp \<Rightarrow> world \<Rightarrow> pool_data option \<times> world" where
  "get_question_pool lvl lvl_id all_pages now w =
     (let w0 = w\<lparr>stats := (stats w)\<lparr>total_requests := total_requests (stats w) + 1\<rparr>\<rparr>;
          pid = lvl @ ''_'' @ lvl_id
      in case redis_get_cached_question_pool pid now (redis w0) of
           Some redis_data \<Rightarrow>
             (Some redis_data, w0\<lparr>stats := (stats w0)\<lparr>redis_hits := redis_hits (stats w0) + 1\<rparr>\<rparr>)
         | None \<Rightarrow>
             (let w1 = w0\<lparr>stats := (stats w0)\<lparr>redis_misses := redis_misses (stats w0) + 1\<rparr>\<rparr>
              in case supabase_get_cached_question_pool pid now (supabase w1) of
                   (Some supabase_data, db') \<Rightarrow>
                     (let w2 = w1\<lparr>supabase := db',
                                 stats := (stats w1)\<lparr>supabase_hits := supabase_hits (stats w1) + 1\<rparr>\<rparr>
                      in case cache_to_redis pid supabase_data now w2 of
                           (ok, pool', w3) \<Rightarrow> (Some pool', w3))
                 | (None, db') \<Rightarrow>
                     (let w2 = w1\<lparr>supabase := db',
                                 stats := (stats w1)\<lparr>supabase_misses := supabase_misses (stats w1) + 1\<rparr>\<rparr>;
                          w3 = w2\<lparr>stats := (stats w2)
                                 \<lparr>external_api_calls := external_api_calls (stats w2) + 1\<rparr>\<rparr>
                      in case tier3_fetch lvl lvl_id all_pages now w3 of
                           None \<Rightarrow> (None, w3)
                         | Some pool \<Rightarrow>
                             (case cache_to_all_tiers pid pool now w3 of
                                (ok, pool', w4) \<Rightarrow> (Some pool', w4)))))"

section \<open>Question service (services/question\_service.py)\<close>

definition get_default_questions :: "question list" where
  "get_default_questions =
     [\<lparr>q_id = ''q1'', content = ''What is 15 + 27?'', options = [''40'', ''42'', ''44'', ''46''],
       correct_answer = Some ''42'', concepts = Some [1, 0, 0, 0, 0], difficulty = Some 0.3,
       discrimination = Some 1.2\<rparr>,
      \<lparr>q_id = ''q2'', content = ''Solve for x: 2x + 5 = 15'', options = [''3'', ''5'', ''7'', ''10''],
       correct_answer = Some ''5'', concepts = Some [1, 1, 0, 0, 0], difficulty = Some 0.6,
       discrimination = Some 1.5\<rparr>,
      \<lparr>q_id = ''q3'', content = ''What is the derivative of x^2?'',
       options = [''x'', ''2x'', ''x^2'', ''2x^2''],
       correct_answer = Some ''2x'', concepts = Some [1, 1, 1, 0, 0], difficulty = Some 0.8,
       discrimination = Some 1.8\<rparr>]"

definition get_questions_from_external ::
  "string \<Rightarrow> string \<Rightarrow> timestamp \<Rightarrow> world \<Rightarrow> question list \<times> world" where
  "get_questions_from_external lvl lvl_id now w =
     (case get_question_pool lvl lvl_id True now w of
        (Some pool, w') \<Rightarrow> (questions pool, w')
      | (None, w') \<Rightarrow> ([], w'))"

text \<open>The loop that caches each question of a pool read from the warm store.\<close>

fun cache_questions :: "question list \<Rightarrow> timestamp \<Rightarrow> redis_service \<Rightarrow> redis_service" where
  "cache_questions [] now r = r"
| "cache_questions (q # qs) now r = cache_questions qs now (snd (cache_question (q_id q) q now r))"

text \<open>
  \<open>get_questions\<close>: a pool id with an underscore is \<open>level_levelid\<close> and goes through
  the cache manager, any other goes to the warm store, none gives the default questions.
\<close>

definition get_questions :: "string option \<Rightarrow> timestamp \<Rightarrow> world \<Rightarrow> question list \<times> world" where
  "get_questions pool now w =
     (case pool of
        None \<Rightarrow> (get_default_questions, w)
      | Some pid \<Rightarrow>
          if pid = [] then (get_default_questions, w)
          else if CHR ''_'' \<in> set pid
          then get_questions_from_external (takeWhile (\<lambda>c. c \<noteq> CHR ''_'') pid)
                 (tl (dropWhile (\<lambda>c. c \<noteq> CHR ''_'') pid)) now w
          else (let qs = get_questions_by_pool pid (supabase w)
                in (qs, w\<lparr>redis := cache_questions qs now (redis w)\<rparr>)))"

definition get_question_by_id :: "string \<Rightarrow> timestamp \<Rightarrow> world \<Rightarrow> question option \<times> world" where
  "get_question_by_id qid now w =
     (case get_cached_question qid now (redis w) of
        Some cached \<Rightarrow> (Some cached, w)
      | None \<Rightarrow>
          (case supabase_get_question_by_id qid (supabase w) of
             None \<Rightarrow> (None, w)
           | Some q \<Rightarrow> (Some q, w\<lparr>redis := snd (cache_question qid q now (redis w))\<rparr>)))"

fun create_q_matrix_loop :: "question list \<Rightarrow> q_matrix \<Rightarrow> q_matrix" where
  "create_q_matrix_loop [] qm = qm"
| "create_q_matrix_loop (q # qs) qm =
     create_q_matrix_loop qs
       (qm(q_id q \<mapsto> (case concepts q of None \<Rightarrow> [1, 0, 0, 0, 0] | Some c \<Rightarrow> c)))"

definition create_q_matrix :: "question list \<Rightarrow> q_matrix" where
  "create_q_matrix qs = create_q_matrix_loop qs Map.empty"

section \<open>Request handlers (main.py)\<close>

record start_request =
  sreq_student_id :: "string option"
  sreq_question_pool_id :: "string option"
  sreq_concept_names :: "string list option"
  sreq_end_criteria :: "end_criteria option"

record submit_request =
  sub_session_id :: "string option"
  sub_question_id :: "string option"
  sub_response :: "int option"

record started_payload =
  sp_session_id :: string
  sp_student_id :: string
  sp_initial_proficiency :: "real list"
  sp_concept_names :: "string list"
  sp_next_question :: question
  sp_status :: string

record continue_payload =
  ct_status :: string
  ct_current_proficiency :: "real list"
  ct_next_question :: question
  ct_questions_answered :: int

record completion_payload =
  cp_status :: string
  cp_final_proficiency :: "real list"
  cp_total_questions :: int
  cp_accuracy :: real

datatype body =
    ErrorBody string
  | StartedBody started_payload
  | ContinueBody continue_payload
  | CompletionBody completion_payload

type_synonym http_response = "nat \<times> body"

definition default_concept_names :: "string list" where
  "default_concept_names = [''Math'', ''Algebra'', ''Geometry'', ''Statistics'', ''Calculus'']"

definition default_end_criteria :: end_criteria where
  "default_end_criteria = \<lparr>ec_type = Some ''fixed_length'', min_questions = Some 5,
     max_questions = Some 20, precision_threshold = Some 0.3, classification_threshold = None\<rparr>"

definition internal_error :: http_response where
  "internal_error = (500, ErrorBody ''Internal server error'')"

text \<open>
  \<open>start_test\<close>, with the session id that \<open>uuid.uuid4()\<close> draws as a parameter. An
  exception leaves the writes made before it in place and answers 500.
\<close>

definition start_test :: "start_request \<Rightarrow> string \<Rightarrow> timestamp \<Rightarrow> world \<Rightarrow> http_response \<times> world" where
  "start_test data session_id now w =
     (let concept_names = (case sreq_concept_names data of None \<Rightarrow> default_concept_names | Some c \<Rightarrow> c);
          ec = (case sreq_end_criteria data of None \<Rightarrow> default_end_criteria | Some e \<Rightarrow> e)
      in case sreq_student_id data of
           None \<Rightarrow> ((400, ErrorBody ''student_id is required''), w)
         | Some sid \<Rightarrow>
             if sid = [] then ((400, ErrorBody ''student_id is required''), w)
             else (case get_questions (sreq_question_pool_id data) now w of
               (qs, w1) \<Rightarrow>
                 if qs = [] then ((404, ErrorBody ''No questions available''), w1)
                 else (let qm = create_q_matrix qs
                  in case get_or_create_student sid concept_names now (supabase w1) of
                       None \<Rightarrow> (internal_error, w1)
                     | Some (student, db1) \<Rightarrow>
                         (let stored = get_current_proficiency sid db1;
                              initial = (if stored = [] then replicate (length concept_names) 0.5
                                         else stored);
                              db2 = (if stored = []
                                     then snd (create_user_proficiency sid initial concept_names now db1)
                                     else db1);
                              db3 = snd (create_session session_id sid (sreq_question_pool_id data)
                                           initial now db2);
                              w2 = w1\<lparr>supabase := db3\<rparr>
                          in case select_next_question qs qm initial [] of
                               None \<Rightarrow> (internal_error, w2)
                             | Some next_question \<Rightarrow>
                                 (let redis_state =
                                        \<lparr>student_id = sid,
                                         question_pool_id = sreq_question_pool_id data,
                                         current_proficiency = initial,
                                         next_question_id = q_id next_question,
                                         status = ''active'', questions_answered = 0,
                                         correct_count = 0, st_end_criteria = ec,
                                         last_activity = None\<rparr>;
                                      r' = snd (store_session_state session_id redis_state now (redis w2))
                                  in ((200, StartedBody
                                         \<lparr>sp_session_id = session_id, sp_student_id = sid,
                                          sp_initial_proficiency = initial,
                                          sp_concept_names = concept_names,
                                          sp_next_question = next_question,
                                          sp_status = ''started''\<rparr>),
                                      w2\<lparr>redis := r'\<rparr>))))))"

text \<open>
  The body of the \<open>try\<close> of \<open>submit_response\<close> that runs while the lock is held.
\<close>

definition submit_locked ::
  "string \<Rightarrow> string \<Rightarrow> int \<Rightarrow> timestamp \<Rightarrow> world \<Rightarrow> http_response \<times> world" where
  "submit_locked session_id qid resp now w =
     (case get_session_state session_id now (redis w) of
        None \<Rightarrow> ((404, ErrorBody ''Session not found or expired''), w)
      | Some session_state \<Rightarrow>
          if status session_state \<noteq> ''active''
          then ((400, ErrorBody ''Session is not active''), w)
          else (case get_question_by_id qid now w of
            (None, w1) \<Rightarrow> ((404, ErrorBody ''Question not found''), w1)
          | (Some q, w1) \<Rightarrow>
             (case get_questions (question_pool_id session_state) now w1 of
               (qs, w2) \<Rightarrow>
                 (let sid = student_id session_state;
                      current = current_proficiency session_state;
                      qm = create_q_matrix qs;
                      new_proficiency = update_ability current q resp qm;
                      answered = questions_answered session_state + 1;
                      correct = correct_count session_state + (if resp = 1 then 1 else 0);
                      db1 = snd (update_user_proficiency sid new_proficiency now (supabase w2));
                      db2 = snd (store_response sid session_id qid resp current new_proficiency now db1);
                      db3 = snd (update_session_activity session_id now db2);
                      responses = get_user_responses sid session_id db3;
                      w3 = w2\<lparr>supabase := db3\<rparr>
                  in if should_continue responses new_proficiency (st_end_criteria session_state)
                     then (let next_question = select_next_question qs qm new_proficiency responses;
                               r1 = snd (update_session_proficiency session_id new_proficiency
                                           answered now (redis w3))
                           in case next_question of
                                None \<Rightarrow> (internal_error, w3\<lparr>redis := r1\<rparr>)
                              | Some nq \<Rightarrow>
                                  (let session_state' = session_state
                                         \<lparr>next_question_id := q_id nq, correct_count := correct\<rparr>;
                                       r2 = snd (store_session_state session_id session_state' now r1)
                                   in ((200, ContinueBody
                                          \<lparr>ct_status = ''continue'',
                                           ct_current_proficiency = new_proficiency,
                                           ct_next_question = nq,
                                           ct_questions_answered = answered\<rparr>),
                                       w3\<lparr>redis := r2\<rparr>)))
                     else (let db4 = snd (complete_session session_id new_proficiency answered
                                            correct now db3);
                               r1 = snd (delete_session_state session_id now (redis w3))
                           in ((200, CompletionBody
                                  \<lparr>cp_status = ''completed'',
                                   cp_final_proficiency = new_proficiency,
                                   cp_total_questions = answered,
                                   cp_accuracy = accuracy_of correct answered\<rparr>),
                               w3\<lparr>supabase := db4, redis := r1\<rparr>))))))"

text \<open>
  \<open>submit_response\<close>: the lock is taken first and released in the \<open>finally\<close>, on
  every way out of the locked body.
\<close>

definition submit_response :: "submit_request \<Rightarrow> timestamp \<Rightarrow> world \<Rightarrow> http_response \<times> world" where
  "submit_response data now w =
     (case (sub_session_id data, sub_question_id data, sub_response data) of
        (Some session_id, Some qid, Some resp) \<Rightarrow>
          if session_id = []
          then ((400, ErrorBody ''session_id, question_id, and response are required''), w)
          else (case acquire_submission_lock session_id qid now (redis w) of
                  (False, r1) \<Rightarrow>
                    ((409, ErrorBody ''This question has already been submitted''), w\<lparr>redis := r1\<rparr>)
                | (True, r1) \<Rightarrow>
                    (case submit_locked session_id qid resp now (w\<lparr>redis := r1\<rparr>) of
                       (answer, w') \<Rightarrow>
                         (answer, w'\<lparr>redis := snd (release_submission_lock session_id qid now
                                                      (redis w'))\<rparr>)))
      | _ \<Rightarrow> ((400, ErrorBody ''session_id, question_id, and response are required''), w))"

text \<open>
  \<open>end_test\<close>. The warm store's row answers for a session that has no hot state; a
  column without a value reads as the default of the \<open>.get\<close>.
\<close>

definition end_test :: "string \<Rightarrow> timestamp \<Rightarrow> world \<Rightarrow> http_response \<times> world" where
  "end_test session_id now w =
     (case get_session_state session_id now (redis w) of
        Some session_state \<Rightarrow>
          (let current = current_proficiency session_state;
               answered = questions_answered session_state;
               correct = correct_count session_state;
               db' = snd (complete_session session_id current answered correct now (supabase w));
               r' = snd (delete_session_state session_id now (redis w))
           in ((200, CompletionBody
                  \<lparr>cp_status = ''ended'', cp_final_proficiency = current,
                   cp_total_questions = answered,
                   cp_accuracy = accuracy_of correct answered\<rparr>),
               w\<lparr>supabase := db', redis := r'\<rparr>))
      | None \<Rightarrow>
          (case get_session session_id (supabase w) of
             None \<Rightarrow> ((404, ErrorBody ''Session not found''), w)
           | Some session_data \<Rightarrow>
               ((200, CompletionBody
                   \<lparr>cp_status = (case sr_status session_data of
                                   None \<Rightarrow> ''already_ended'' | Some s \<Rightarrow> s),
                    cp_final_proficiency = (case final_proficiency session_data of
                                              None \<Rightarrow> [] | Some p \<Rightarrow> p),
                    cp_total_questions = (case sr_total_questions session_data of
                                            None \<Rightarrow> 0 | Some n \<Rightarrow> n),
                    cp_accuracy = (case accuracy session_data of None \<Rightarrow> 0 | Some a \<Rightarrow> a)\<rparr>),
                w)))"

section \<open>Concrete inputs\<close>

text \<open>A question that carries no optional key, and one with a one-concept Q-vector.\<close>

definition bare_question :: question where
  "bare_question = \<lparr>q_id = ''q1'', content = ''What is 2 + 2?'', options = [''3'', ''4''],
     correct_answer = Some ''4'', concepts = None, difficulty = None, discrimination = None\<rparr>"

definition unit_question :: question where
  "unit_question = \<lparr>q_id = ''q1'', content = ''What is 2 + 2?'', options = [''3'', ''4''],
     correct_answer = Some ''4'', concepts = Some [1], difficulty = Some 0,
     discrimination = Some 1\<rparr>"




text \<open>A response row, and end criteria whose minimum exceeds the maximum.\<close>

definition some_response :: response_row where
  "some_response = \<lparr>r_student_id = ''s1'', r_session_id = ''sess'', question_id = ''q1'',
     response = 1, is_correct = 1, proficiency_before = [0.5], proficiency_after = [0.5],
     r_timestamp = 0\<rparr>"

definition crossed_criteria :: end_criteria where
  "crossed_criteria = \<lparr>ec_type = Some ''fixed_length'', min_questions = Some 5,
     max_questions = Some 3, precision_threshold = None, classification_threshold = None\<rparr>"

text \<open>
  The mark that the hot store's \<open>cache_question_pool\<close> puts on the pool it is given.
\<close>

definition stamp :: "timestamp \<Rightarrow> pool_data \<Rightarrow> pool_data" where
  "stamp now pool = pool\<lparr>cached_at := Some now, cache_tier := Some ''redis''\<rparr>"

text \<open>
  A session state that carries an old \<open>last_activity\<close>, and an empty hot store.
\<close>

definition stale_state :: session_state where
  "stale_state = \<lparr>student_id = ''s1'', question_pool_id = Some ''pool1'',
     current_proficiency = [0.5], next_question_id = ''q1'', status = ''active'',
     questions_answered = 0, correct_count = 0, st_end_criteria = default_end_criteria,
     last_activity = Some 5\<rparr>"

definition empty_redis :: redis_service where
  "empty_redis = \<lparr>redis_up = True, redis_kv = Map.empty\<rparr>"

text \<open>
  A run of the service: a warm store that holds an uploaded pool of two questions, an empty
  hot store, and a student who starts a test on that pool with the default end criteria.
\<close>

definition row1 :: question_row where
  "row1 = \<lparr>qr_id = ''q1'', qr_pool_id = ''pool1'', qr_content = ''What is 2 + 2?'',
     qr_options = [''3'', ''4'', ''5'', ''6''], qr_correct_answer = ''4'',
     qr_concepts = [1], qr_difficulty = 0.5, qr_discrimination = 1\<rparr>"

definition row2 :: question_row where
  "row2 = \<lparr>qr_id = ''q2'', qr_pool_id = ''pool1'', qr_content = ''What is 3 + 3?'',
     qr_options = [''5'', ''6'', ''7'', ''8''], qr_correct_answer = ''6'',
     qr_concepts = [1], qr_difficulty = 0.5, qr_discrimination = 1\<rparr>"

definition world0 :: world where
  "world0 = \<lparr>redis = \<lparr>redis_up = True, redis_kv = Map.empty\<rparr>,
     supabase = \<lparr>supabase_up = True, students = [], student_proficiencies = [],
        test_responses = [], test_sessions = [], question_pools = [],
        questions_table = [row1, row2]\<rparr>,
     external_api = (\<lambda>lvl lvl_id page. None),
     stats = \<lparr>redis_hits = 0, redis_misses = 0, supabase_hits = 0, supabase_misses = 0,
        external_api_calls = 0, total_requests = 0\<rparr>\<rparr>"

definition start_req :: start_request where
  "start_req = \<lparr>sreq_student_id = Some ''s1'', sreq_question_pool_id = Some ''pool1'',
     sreq_concept_names = Some [''Math''], sreq_end_criteria = None\<rparr>"

definition qq1 :: question where "qq1 = question_of_row row1"
definition qq2 :: question where "qq2 = question_of_row row2"

text \<open>
  The state of the world after the start, at time 100, with session id \<open>sess1\<close>.
\<close>

definition state1 :: session_state where
  "state1 = \<lparr>student_id = ''s1'', question_pool_id = Some ''pool1'',
     current_proficiency = [1/2], next_question_id = ''q1'', status = ''active'',
     questions_answered = 0, correct_count = 0, st_end_criteria = default_end_criteria,
     last_activity = Some 100\<rparr>"

definition safe1 :: question where "safe1 = qq1\<lparr>correct_answer := None\<rparr>"
definition safe2 :: question where "safe2 = qq2\<lparr>correct_answer := None\<rparr>"

definition student1 :: student_row where
  "student1 = \<lparr>s_id = ''s1'', s_created_at = 100, s_updated_at = 100\<rparr>"

definition prof_row1 :: proficiency_row where
  "prof_row1 = \<lparr>p_id = 0, p_student_id = ''s1'', concept_name = ''Math'',
     proficiency_value = 1/2, confidence = 0, p_created_at = 100, p_updated_at = 100\<rparr>"

definition session_row1 :: session_row where
  "session_row1 = \<lparr>sr_id = ''sess1'', sr_student_id = ''s1'',
     sr_question_pool_id = Some ''pool1'', sr_status = Some ''active'',
     initial_proficiency = [1/2], final_proficiency = None,
     sr_total_questions = Some 0, correct_responses = 0, accuracy = None,
     started_at = 100, sr_last_activity = 100, completed_at = None\<rparr>"

definition world1 :: world where
  "world1 = world0\<lparr>
     redis := \<lparr>redis_up = True, redis_kv =
        [question_key ''q1'' \<mapsto> (QuestionJson safe1, 3700),
         question_key ''q2'' \<mapsto> (QuestionJson safe2, 3700),
         session_key ''sess1'' \<mapsto> (SessionJson state1, 1900)]\<rparr>,
     supabase := (supabase world0)\<lparr>students := [student1],
        student_proficiencies := [prof_row1], test_sessions := [session_row1]\<rparr>\<rparr>"

text \<open>
  The student answers the first question correctly at time 110, and the same request
  arrives once more at time 111, after the first has been answered and within the five
  seconds for which the submission lock is set.
\<close>

definition submit_req :: submit_request where
  "submit_req = \<lparr>sub_session_id = Some ''sess1'', sub_question_id = Some ''q1'',
     sub_response = Some 1\<rparr>"

definition response1 :: response_row where
  "response1 = \<lparr>r_student_id = ''s1'', r_session_id = ''sess1'', question_id = ''q1'',
     response = 1, is_correct = 1, proficiency_before = [1/2], proficiency_after = [41/80],
     r_timestamp = 110\<rparr>"

definition state2 :: session_state where
  "state2 = state1\<lparr>next_question_id := ''q2'', correct_count := 1, last_activity := Some 110\<rparr>"

definition world2 :: world where
  "world2 = world0\<lparr>
     redis := \<lparr>redis_up = True, redis_kv =
        [question_key ''q1'' \<mapsto> (QuestionJson safe1, 3710),
         question_key ''q2'' \<mapsto> (QuestionJson safe2, 3710),
         session_key ''sess1'' \<mapsto> (SessionJson state2, 1910)]\<rparr>,
     supabase := (supabase world0)\<lparr>students := [student1],
        student_proficiencies := [prof_row1\<lparr>proficiency_value := 41/80, p_updated_at := 110\<rparr>],
        test_responses := [response1],
        test_sessions := [session_row1\<lparr>sr_last_activity := 110\<rparr>]\<rparr>\<rparr>"

definition payload1 :: continue_payload where
  "payload1 = \<lparr>ct_status = ''continue'', ct_current_proficiency = [41/80],
          ct_next_question = qq2, ct_questions_answered = 1\<rparr>"

definition response2 :: response_row where
  "response2 = response1\<lparr>r_timestamp := 111\<rparr>"

definition state3 :: session_state where
  "state3 = state1\<lparr>next_question_id := ''q2'', correct_count := 2, last_activity := Some 111\<rparr>"

definition world3 :: world where
  "world3 = world0\<lparr>
     redis := \<lparr>redis_up = True, redis_kv =
        [question_key ''q1'' \<mapsto> (QuestionJson safe1, 3711),
         question_key ''q2'' \<mapsto> (QuestionJson safe2, 3711),
         session_key ''sess1'' \<mapsto> (SessionJson state3, 1911)]\<rparr>,
     supabase := (supabase world0)\<lparr>students := [student1],
        student_proficiencies := [prof_row1\<lparr>proficiency_value := 41/80, p_updated_at := 111\<rparr>],
        test_responses := [response1, response2],
        test_sessions := [session_row1\<lparr>sr_last_activity := 111\<rparr>]\<rparr>\<rparr>"

text \<open>
  The payload of an \<open>end\<close> right after the start.
\<close>

definition ended_payload :: completion_payload where
  "ended_payload = \<lparr>cp_status = ''ended'', cp_final_proficiency = [1/2],
     cp_total_questions = 0, cp_accuracy = 0\<rparr>"

text \<open>
  A world whose two stores are down and whose remote source serves one page for the pool
  \<open>topic_X\<close>, and that pool in the internal format.
\<close>

definition raw_question1 :: raw_question where
  "raw_question1 = \<lparr>rq_id = ''x1'', rq_content = ''What is 7 * 6?'',
     rq_options = Some [''36'', ''42''], rq_correct_answer = Some ''42'',
     rq_q_vector = None, rq_difficulty = None, rq_discrimination = None\<rparr>"

definition raw_page1 :: raw_page where
  "raw_page1 = \<lparr>rp_level = ''topic'', rp_level_id = ''X'', rp_attribute_count = None,
     rp_attributes = None, rp_questions = Some [raw_question1], rp_pagination = None,
     fetched_at = None\<rparr>"

definition remote1 :: remote where
  "remote1 lvl lvl_id page =
     (if lvl = ''topic'' \<and> lvl_id = ''X'' \<and> page = 1 then Some raw_page1 else None)"

definition pool_x :: pool_data where
  "pool_x = \<lparr>pool_id = ''topic_X'', level = ''topic'', level_id = ''X'', attribute_count = 0,
     attributes = [],
     questions = [\<lparr>q_id = ''x1'', content = ''What is 7 * 6?'', options = [''36'', ''42''],
        correct_answer = Some ''42'', concepts = Some [1, 0, 0, 0, 0], difficulty = Some 0.5,
        discrimination = Some 1\<rparr>],
     total_questions = 1, cache_tier = None, cached_at = None\<rparr>"

definition stores_down :: world where
  "stores_down = world0\<lparr>redis := \<lparr>redis_up = False, redis_kv = Map.empty\<rparr>,
     supabase := (supabase world0)\<lparr>supabase_up := False\<rparr>,
     external_api := remote1\<rparr>"

section \<open>Properties of the adaptive engine\<close>

subsection \<open>Bounds used throughout\<close>

lemma calculate_probability_bounds:
  "0.01 \<le> calculate_probability t q qm \<and> calculate_probability t q qm \<le> 0.99"
  by (auto simp: calculate_probability_def Let_def clip_def split: option.splits)


lemma gradient_sign:
  assumes "0.01 \<le> p" "p \<le> 0.99" "a > (0::real)"
  shows "(1 - p) * p * (1 - p) * a * 1 \<ge> 0" "(0 - p) * p * (1 - p) * a * 1 \<le> 0"
proof -
  have "p * (1 - p) * a > 0" using assms by simp
  then show "(1 - p) * p * (1 - p) * a * 1 \<ge> 0" using assms by simp
  have "p * (p * (1 - p) * a) \<ge> 0" using assms by simp
  then show "(0 - p) * p * (1 - p) * a * 1 \<le> 0" by (simp add: algebra_simps)
qed

lemma step_ge:
  assumes "g \<ge> 0" "t \<le> 3"
  shows "clip (t + learning_rate * g) (- 3) 3 \<ge> t"
proof -
  have "learning_rate * g \<ge> 0" using assms by (simp add: learning_rate_def)
  then show ?thesis using assms by (simp add: clip_def)
qed

lemma step_le:
  assumes "g \<le> 0" "t \<ge> - 3"
  shows "clip (t + learning_rate * g) (- 3) 3 \<le> t"
proof -
  have "learning_rate * g \<le> 0" using assms by (simp add: learning_rate_def mult_le_0_iff)
  then show ?thesis using assms by (simp add: clip_def)
qed

lemma step_up:
  assumes "0.01 \<le> p" "p \<le> 0.99"
  shows "clip (t + learning_rate * ((of_int 1 - p) * p * (1 - p) * 1 * of_int 1)) (- 3) 3
         > t \<or> t \<ge> 3"
proof -
  have "(1 - p) * p * (1 - p) > 0" using assms by simp
  then show ?thesis by (auto simp: clip_def learning_rate_def)
qed

subsection \<open>The default Q-vector\<close>

text \<open>
  C2, as stated: for a question whose id has no entry in the Q-matrix the Q-vector used is
  \<open>[1, 0, \<dots>, 0]\<close>. It fails for two concepts: the vector used is not \<open>[1, 0]\<close>, and
  a correct response moves the second concept as well.
\<close>

theorem default_q_vector_counterexample:
  "q_vector_of Map.empty (q_id bare_question) [0, 0] \<noteq> [1, 0]
   \<and> update_ability [0, 0] bare_question 1 Map.empty ! 1 \<noteq> [0, 0] ! 1"
proof -
  let ?p = "calculate_probability [0, 0] bare_question Map.empty"
  have "update_ability [0, 0] bare_question 1 Map.empty ! 1
        = clip (0 + learning_rate * ((of_int 1 - ?p) * ?p * (1 - ?p) * 1 * of_int 1)) (- 3) 3"
    by (simp add: update_ability_def q_vector_of_def Let_def bare_question_def)
  moreover have "\<dots> > 0"
    using calculate_probability_bounds[of "[0, 0]" bare_question Map.empty]
          step_up[of ?p 0] by auto
  ultimately show ?thesis by (simp add: q_vector_of_def)
qed

text \<open>
  C2, amended: for a question whose id has no entry in the Q-matrix, the Q-vector used is
  \<open>[1, 1, \<dots>, 1]\<close> of the proficiency's length (the item loads on every concept): the
  probability and the proficiency update are those of a Q-matrix that maps the id to the
  all-ones vector.
\<close>

theorem default_q_vector_all_ones:
  assumes "qm (q_id q) = None"
  shows "q_vector_of qm (q_id q) proficiency = replicate (length proficiency) 1
     \<and> calculate_probability proficiency q qm
         = calculate_probability proficiency q (qm(q_id q \<mapsto> replicate (length proficiency) 1))
     \<and> update_ability proficiency q r qm
         = update_ability proficiency q r (qm(q_id q \<mapsto> replicate (length proficiency) 1))"
  using assms
  by (simp add: q_vector_of_def calculate_probability_def update_ability_def)

theorem default_q_vector_all_ones_witness:
  "Map.empty (q_id bare_question) = (None :: int list option)
   \<and> q_vector_of Map.empty (q_id bare_question) [0, 0] = [1, 1]"
  using default_q_vector_all_ones[of Map.empty bare_question "[0, 0]" 1]
  by (simp add: numeral_2_eq_2)

subsection \<open>The stopping rule\<close>

text \<open>
  C5, as stated: at or above \<open>max_questions\<close> the stopping rule stops, unconditionally.
  It fails when \<open>min_questions\<close> exceeds \<open>max_questions\<close>: with a minimum of 5 and a
  maximum of 3, four responses are at or above the maximum and the rule continues.
\<close>

theorem should_continue_max_counterexample:
  "int (length (replicate 4 some_response)) \<ge> the (max_questions crossed_criteria)
   \<and> should_continue (replicate 4 some_response) [0.5] crossed_criteria"
  by (simp add: should_continue_def crossed_criteria_def)

text \<open>
  C5, amended: for every end-criteria object and every response list, if the number of
  responses is strictly below \<open>min_questions\<close> (default 5) the rule continues; if it is at or
  above \<open>max_questions\<close> (default 20) and not below \<open>min_questions\<close>, the rule stops. The
  minimum is checked first.
\<close>

theorem should_continue_bounds:
  "(int (length responses) < (case min_questions ec of None \<Rightarrow> 5 | Some m \<Rightarrow> m)
      \<longrightarrow> should_continue responses proficiency ec)
   \<and> (int (length responses) \<ge> (case max_questions ec of None \<Rightarrow> 20 | Some m \<Rightarrow> m)
      \<and> int (length responses) \<ge> (case min_questions ec of None \<Rightarrow> 5 | Some m \<Rightarrow> m)
      \<longrightarrow> \<not> should_continue responses proficiency ec)"
  by (simp add: should_continue_def Let_def)

theorem should_continue_bounds_witness:
  "should_continue (replicate 4 some_response) [0.5] crossed_criteria
   \<and> \<not> should_continue (replicate 5 some_response) [0.5] crossed_criteria"
  using should_continue_bounds[of "replicate 4 some_response" crossed_criteria "[0.5]"]
        should_continue_bounds[of "replicate 5 some_response" crossed_criteria "[0.5]"]
  by (simp add: crossed_criteria_def)

subsection \<open>Item selection\<close>








subsection \<open>Direction of the proficiency update\<close>

text \<open>
  The updated component at an index that both the proficiency and the Q-vector have,
  unless numpy could not combine the two lengths and the proficiency came back unchanged.
\<close>

lemma update_ability_nth:
  fixes proficiency :: "real list"
  assumes i: "i < length proficiency" "i < length (q_vector_of qm (q_id q) proficiency)"
  shows "update_ability proficiency q r qm = proficiency
     \<or> (i < length (update_ability proficiency q r qm)
        \<and> update_ability proficiency q r qm ! i =
            clip (proficiency ! i + learning_rate *
                   ((of_int r - calculate_probability proficiency q qm)
                     * calculate_probability proficiency q qm
                     * (1 - calculate_probability proficiency q qm)
                     * (case discrimination q of None \<Rightarrow> 1 | Some d \<Rightarrow> d)
                     * of_int (q_vector_of qm (q_id q) proficiency ! i))) (- 3) 3)"
proof -
  let ?qv = "q_vector_of qm (q_id q) proficiency"
  consider (eq) "length ?qv = length proficiency"
    | (one_q) "length ?qv \<noteq> length proficiency" "length ?qv = 1"
    | (one_p) "length ?qv \<noteq> length proficiency" "length ?qv \<noteq> 1" "length proficiency = 1"
    | (err) "length ?qv \<noteq> length proficiency" "length ?qv \<noteq> 1" "length proficiency \<noteq> 1"
    by blast
  then show ?thesis
  proof cases
    case eq
    then show ?thesis using i by (simp add: update_ability_def Let_def)
  next
    case one_q
    then obtain v where v: "?qv = [v]" by (cases ?qv) auto
    with i have "i = 0" by simp
    then show ?thesis using one_q i v by (simp add: update_ability_def Let_def)
  next
    case one_p
    then obtain t where t: "proficiency = [t]" by (cases proficiency) auto
    with i have i0: "i = 0" by simp
    have "update_ability [t] q r qm ! 0 =
          clip (t + learning_rate *
                   ((of_int r - calculate_probability [t] q qm)
                     * calculate_probability [t] q qm
                     * (1 - calculate_probability [t] q qm)
                     * (case discrimination q of None \<Rightarrow> 1 | Some d \<Rightarrow> d)
                     * of_int (q_vector_of qm (q_id q) [t] ! 0))) (- 3) 3"
      using one_p i unfolding t i0 by (simp add: update_ability_def Let_def)
    moreover have "0 < length (update_ability [t] q r qm)"
      using one_p i unfolding t i0 by (simp add: update_ability_def Let_def)
    ultimately show ?thesis unfolding t i0 by simp
  next
    case err
    then show ?thesis by (simp add: update_ability_def Let_def)
  qed
qed

text \<open>
  C8, as stated: with discrimination \<open>a > 0\<close> and response 1, every component \<open>i\<close> with
  \<open>q_vec[i] = 1\<close> satisfies \<open>\<theta>'\<^sub>i \<ge> \<theta>\<^sub>i\<close>, for every proficiency vector. It fails for a
  component above the upper bound 3: from \<open>\<theta> = [4]\<close> the update returns \<open>[3]\<close>.
\<close>

theorem update_ability_counterexample:
  "discrimination unit_question = Some 1
   \<and> q_vector_of [''q1'' \<mapsto> [1]] (q_id unit_question) [4] ! 0 = 1
   \<and> update_ability [4] unit_question 1 [''q1'' \<mapsto> [1]] ! 0 < [4] ! 0"
proof -
  let ?p = "calculate_probability [4] unit_question [''q1'' \<mapsto> [1]]"
  have b: "0.01 \<le> ?p" "?p \<le> 0.99" using calculate_probability_bounds by auto
  have "(1 - ?p) * ?p * (1 - ?p) * 1 * 1 \<ge> 0" using gradient_sign(1)[OF b, of 1] by simp
  then have "learning_rate * ((1 - ?p) * ?p * (1 - ?p) * 1 * 1) \<ge> 0"
    by (simp add: learning_rate_def)
  then have "clip (4 + learning_rate * ((1 - ?p) * ?p * (1 - ?p) * 1 * 1)) (- 3) 3 = 3"
    by (simp add: clip_def)
  moreover have "update_ability [4] unit_question 1 [''q1'' \<mapsto> [1]] ! 0
        = clip (4 + learning_rate * ((1 - ?p) * ?p * (1 - ?p) * 1 * 1)) (- 3) 3"
    by (simp add: update_ability_def q_vector_of_def Let_def unit_question_def)
  ultimately show ?thesis by (simp add: q_vector_of_def unit_question_def)
qed

text \<open>
  C8, amended: for every question with discrimination \<open>a > 0\<close>, every Q-matrix and every
  proficiency vector \<open>\<theta>\<close>, and every concept \<open>i\<close> with \<open>q_vec[i] = 1\<close>: if the response is 1
  and \<open>\<theta>\<^sub>i \<le> 3\<close> then \<open>\<theta>'\<^sub>i \<ge> \<theta>\<^sub>i\<close>, and if the response is 0 and \<open>\<theta>\<^sub>i \<ge> -3\<close> then
  \<open>\<theta>'\<^sub>i \<le> \<theta>\<^sub>i\<close>. (The update clips to \<open>[-3, 3]\<close>.)
\<close>

theorem update_ability_monotone:
  fixes proficiency :: "real list"
  assumes a: "(case discrimination q of None \<Rightarrow> 1 | Some d \<Rightarrow> d) > 0"
    and i: "i < length proficiency" "i < length (q_vector_of qm (q_id q) proficiency)"
    and qi: "q_vector_of qm (q_id q) proficiency ! i = 1"
  shows "(proficiency ! i \<le> 3 \<longrightarrow>
            i < length (update_ability proficiency q 1 qm)
            \<and> update_ability proficiency q 1 qm ! i \<ge> proficiency ! i)
       \<and> (proficiency ! i \<ge> - 3 \<longrightarrow>
            i < length (update_ability proficiency q 0 qm)
            \<and> update_ability proficiency q 0 qm ! i \<le> proficiency ! i)"
proof -
  let ?p = "calculate_probability proficiency q qm"
  have b: "0.01 \<le> ?p" "?p \<le> 0.99" using calculate_probability_bounds by auto
  note g = gradient_sign[OF b a]
  show ?thesis
  proof (intro conjI impI)
    assume le: "proficiency ! i \<le> 3"
    from update_ability_nth[OF i, of 1] step_ge[OF g(1) le] qi i
    show "i < length (update_ability proficiency q 1 qm)"
      and "update_ability proficiency q 1 qm ! i \<ge> proficiency ! i"
      by auto
  next
    assume ge: "proficiency ! i \<ge> - 3"
    from update_ability_nth[OF i, of 0] step_le[OF g(2) ge] qi i
    show "i < length (update_ability proficiency q 0 qm)"
      and "update_ability proficiency q 0 qm ! i \<le> proficiency ! i"
      by auto
  qed
qed

theorem update_ability_monotone_witness:
  "update_ability [3] unit_question 1 [''q1'' \<mapsto> [1]] ! 0 \<ge> 3
   \<and> update_ability [3] unit_question 0 [''q1'' \<mapsto> [1]] ! 0 \<le> 3"
  using update_ability_monotone[of unit_question 0 "[3]" "[''q1'' \<mapsto> [1]]"]
  by (simp add: unit_question_def q_vector_of_def)

section \<open>Properties of the hot store\<close>

subsection \<open>Keys and availability\<close>

lemma keys_distinct:
  "session_key a \<noteq> lock_key b c" "session_key a \<noteq> question_key d" "session_key a \<noteq> pool_key e"
  "lock_key b c \<noteq> question_key d" "lock_key b c \<noteq> pool_key e" "question_key d \<noteq> pool_key e"
  "lock_key b c \<noteq> session_key a" "question_key d \<noteq> session_key a" "pool_key e \<noteq> session_key a"
  "question_key d \<noteq> lock_key b c" "pool_key e \<noteq> lock_key b c" "pool_key e \<noteq> question_key d"
  by (simp_all add: session_key_def lock_key_def question_key_def pool_key_def)

lemma key_inj:
  "(question_key a = question_key b) = (a = b)"
  "(session_key a = session_key b) = (a = b)"
  by (simp_all add: question_key_def session_key_def)

lemma up_client_setex [simp]: "redis_up (client_setex r now k ttl v) = redis_up r"
  by (simp add: client_setex_def)

lemma up_client_delete [simp]: "redis_up (snd (client_delete r now k)) = redis_up r"
  by (simp add: client_delete_def)

lemma up_cache_question [simp]: "redis_up (snd (cache_question qid q now r)) = redis_up r"
  by (simp add: cache_question_def Let_def)

lemma up_cache_questions [simp]: "redis_up (cache_questions qs now r) = redis_up r"
  by (induction qs arbitrary: r) simp_all

lemma up_store_session_state [simp]:
  "redis_up (snd (store_session_state sid st now r)) = redis_up r"
  by (simp add: store_session_state_def Let_def)

lemma up_update_session_proficiency [simp]:
  "redis_up (snd (update_session_proficiency sid p n now r)) = redis_up r"
  by (simp add: update_session_proficiency_def split: option.splits)

lemma up_redis_cache_question_pool:
  "redis_cache_question_pool pid pool now r = (ok, pool', r') \<Longrightarrow> redis_up r' = redis_up r"
  by (auto simp: redis_cache_question_pool_def Let_def split: if_splits)

lemma get_session_state_up: "get_session_state sid now r = Some st \<Longrightarrow> redis_up r"
  by (simp add: get_session_state_def split: if_splits)

lemma store_after_update:
  "redis_up r \<Longrightarrow>
   snd (store_session_state sid st' now (snd (update_session_proficiency sid new n now r)))
     = client_setex r now (session_key sid) session_ttl (SessionJson (st'\<lparr>last_activity := Some now\<rparr>))"
  by (simp add: store_session_state_def update_session_proficiency_def client_setex_def Let_def
      split: option.splits)

lemma get_session_state_setex_other:
  "k \<noteq> session_key sid \<Longrightarrow>
   get_session_state sid t (client_setex r now k ttl v) = get_session_state sid t r"
  by (simp add: get_session_state_def client_setex_def client_get_def)

lemma get_session_state_deleted:
  "get_session_state sid t (snd (delete_session_state sid now r)) = None" if "redis_up r"
  using that by (simp add: delete_session_state_def client_delete_def get_session_state_def client_get_def)

subsection \<open>Writing session state\<close>

text \<open>
  C10: every write of hot session state by \<open>store_session_state\<close> (the store being
  reachable) stores the state with \<open>last_activity\<close> overwritten by the current time,
  whatever the caller supplied, under a key that expires 30 minutes later: a read returns
  the state until then and nothing afterwards. The other writer of hot session state,
  \<open>update_session_proficiency\<close>, writes through it and so does the same.
\<close>

theorem store_session_state_refreshes:
  assumes "redis_up r"
  shows "(\<exists>r'. store_session_state session_id state now r = (True, r')
     \<and> redis_kv r' (session_key session_id)
           = Some (SessionJson (state\<lparr>last_activity := Some now\<rparr>), now + 30 * 60)
     \<and> (\<forall>t. t < now + 30 * 60 \<longrightarrow>
           get_session_state session_id t r' = Some (state\<lparr>last_activity := Some now\<rparr>))
     \<and> (\<forall>t. t \<ge> now + 30 * 60 \<longrightarrow> get_session_state session_id t r' = None))
   \<and> (\<forall>st. get_session_state session_id now r = Some st \<longrightarrow>
         redis_kv (snd (update_session_proficiency session_id proficiency answered now r))
            (session_key session_id)
           = Some (SessionJson (st\<lparr>current_proficiency := proficiency,
                       questions_answered := answered, last_activity := Some now\<rparr>),
                   now + 30 * 60))"
  using assms
  by (simp add: store_session_state_def update_session_proficiency_def get_session_state_def
      client_setex_def client_get_def session_ttl_def Let_def)

theorem store_session_state_refreshes_witness:
  "redis_up empty_redis
   \<and> last_activity stale_state = Some 5
   \<and> get_session_state ''abc'' 1899 (snd (store_session_state ''abc'' stale_state 100 empty_redis))
        = Some (stale_state\<lparr>last_activity := Some 100\<rparr>)
   \<and> get_session_state ''abc'' 1900 (snd (store_session_state ''abc'' stale_state 100 empty_redis))
        = None"
proof -
  have up: "redis_up empty_redis" by (simp add: empty_redis_def)
  have old: "last_activity stale_state = Some 5" by (simp add: stale_state_def)
  note t = store_session_state_refreshes[OF up, of "''abc''" stale_state 100 "[]" 0]
  from t obtain r' where r': "store_session_state ''abc'' stale_state 100 empty_redis = (True, r')"
    and live: "\<forall>t. t < 100 + 30 * 60 \<longrightarrow>
           get_session_state ''abc'' t r' = Some (stale_state\<lparr>last_activity := Some 100\<rparr>)"
    and gone: "\<forall>t. t \<ge> 100 + 30 * 60 \<longrightarrow> get_session_state ''abc'' t r' = None"
    by (elim conjE exE)
  have a: "get_session_state ''abc'' 1899 r' = Some (stale_state\<lparr>last_activity := Some 100\<rparr>)"
    using live[rule_format, of 1899] by simp
  have b: "get_session_state ''abc'' 1900 r' = None"
    using gone[rule_format, of 1900] by simp
  show ?thesis using up old a b by (simp add: r')
qed

section \<open>Properties of the cache manager\<close>

lemma up_cache_to_redis:
  "cache_to_redis pid pool now w = (ok, pool', w') \<Longrightarrow> redis_up (redis w') = redis_up (redis w)"
  by (auto simp: cache_to_redis_def split: prod.splits dest: up_redis_cache_question_pool)

lemma up_cache_to_all_tiers:
  "cache_to_all_tiers pid pool now w = (ok, pool', w') \<Longrightarrow> redis_up (redis w') = redis_up (redis w)"
  by (auto simp: cache_to_all_tiers_def cache_to_supabase_def split: prod.splits
      dest!: up_cache_to_redis)

lemma up_get_question_pool:
  "get_question_pool lvl lid ap now w = (res, w') \<Longrightarrow> redis_up (redis w') = redis_up (redis w)"
  by (auto simp: get_question_pool_def Let_def split: option.splits prod.splits
      dest!: up_cache_to_redis up_cache_to_all_tiers)

lemma tier3_fetch_cong:
  "external_api w' = external_api w \<Longrightarrow>
   tier3_fetch lvl lid ap now w' = tier3_fetch lvl lid ap now w"
  by (simp add: tier3_fetch_def)

lemma cache_to_redis_pool:
  "fst (snd (cache_to_redis pid pool now w)) = stamp now pool"
  by (simp add: cache_to_redis_def redis_cache_question_pool_def stamp_def Let_def)

lemma cache_to_all_tiers_pool:
  "fst (snd (cache_to_all_tiers pid pool now w)) = stamp now pool"
  by (simp add: cache_to_all_tiers_def cache_to_redis_def redis_cache_question_pool_def
      stamp_def Let_def split: prod.splits)

lemma stamp_questions [simp]: "questions (stamp now pool) = questions pool"
  by (simp add: stamp_def)

text \<open>
  The result of the waterfall: the hot store's document, else the warm store's pool, else
  the remote source's, the last two with the hot store's mark.
\<close>

lemma get_question_pool_result:
  "fst (get_question_pool lvl lid ap now w) =
     (case redis_get_cached_question_pool (lvl @ ''_'' @ lid) now (redis w) of
        Some d \<Rightarrow> Some d
      | None \<Rightarrow>
          (case fst (supabase_get_cached_question_pool (lvl @ ''_'' @ lid) now (supabase w)) of
             Some d \<Rightarrow> Some (stamp now d)
           | None \<Rightarrow> map_option (stamp now) (tier3_fetch lvl lid ap now w)))"
proof -
  have t3: "\<And>db c. tier3_fetch lvl lid ap now (w\<lparr>supabase := db, stats := c\<rparr>)
              = tier3_fetch lvl lid ap now w"
    by (rule tier3_fetch_cong) simp
  have a: "\<And>pid pool w. (case cache_to_redis pid pool now w of (ok, pool', w3) \<Rightarrow> (Some pool', w3))
      = (Some (stamp now pool), snd (snd (cache_to_redis pid pool now w)))"
  proof -
    fix pid pool w
    show "(case cache_to_redis pid pool now w of (ok, pool', w3) \<Rightarrow> (Some pool', w3))
      = (Some (stamp now pool), snd (snd (cache_to_redis pid pool now w)))"
      using cache_to_redis_pool[of pid pool now w]
      by (cases "cache_to_redis pid pool now w") auto
  qed
  have b: "\<And>pid pool w. (case cache_to_all_tiers pid pool now w of (ok, pool', w3) \<Rightarrow> (Some pool', w3))
      = (Some (stamp now pool), snd (snd (cache_to_all_tiers pid pool now w)))"
  proof -
    fix pid pool w
    show "(case cache_to_all_tiers pid pool now w of (ok, pool', w3) \<Rightarrow> (Some pool', w3))
      = (Some (stamp now pool), snd (snd (cache_to_all_tiers pid pool now w)))"
      using cache_to_all_tiers_pool[of pid pool now w]
      by (cases "cache_to_all_tiers pid pool now w") auto
  qed
  show ?thesis
    by (simp add: get_question_pool_def Let_def a b t3 split: option.splits prod.splits)
qed

text \<open>
  C9: \<open>get_question_pool\<close> returns null exactly when the hot store yields no pool,
  the warm store yields no pool and the remote fetch yields no pool. A hot store that
  raises yields no pool and the read goes on to the warm store and then to the remote
  source; a warm store that raises yields no pool and the read goes on to the remote
  source.
\<close>

theorem get_question_pool_waterfall:
  fixes lvl lid :: string
  defines "pid \<equiv> lvl @ ''_'' @ lid"
  shows
   "(fst (get_question_pool lvl lid ap now w) = None \<longleftrightarrow>
        redis_get_cached_question_pool pid now (redis w) = None
      \<and> fst (supabase_get_cached_question_pool pid now (supabase w)) = None
      \<and> tier3_fetch lvl lid ap now w = None)
    \<and> (\<not> redis_up (redis w) \<longrightarrow>
          redis_get_cached_question_pool pid now (redis w) = None
        \<and> fst (get_question_pool lvl lid ap now w) =
            (case fst (supabase_get_cached_question_pool pid now (supabase w)) of
               Some d \<Rightarrow> Some (stamp now d)
             | None \<Rightarrow> map_option (stamp now) (tier3_fetch lvl lid ap now w)))
    \<and> (\<not> supabase_up (supabase w) \<longrightarrow>
          fst (supabase_get_cached_question_pool pid now (supabase w)) = None
        \<and> (redis_get_cached_question_pool pid now (redis w) = None \<longrightarrow>
             fst (get_question_pool lvl lid ap now w)
               = map_option (stamp now) (tier3_fetch lvl lid ap now w)))"
proof -
  have r: "\<not> redis_up (redis w) \<Longrightarrow> redis_get_cached_question_pool pid now (redis w) = None"
    by (simp add: redis_get_cached_question_pool_def)
  have s: "\<not> supabase_up (supabase w) \<Longrightarrow>
      fst (supabase_get_cached_question_pool pid now (supabase w)) = None"
    by (simp add: supabase_get_cached_question_pool_def)
  show ?thesis
    unfolding get_question_pool_result pid_def[symmetric]
    using r s by (auto split: option.splits)
qed

lemma tier3_remote1:
  "tier3_fetch ''topic'' ''X'' True 50 stores_down = Some pool_x"
  by (simp add: tier3_fetch_def fetch_all_pages_def fetch_question_pool_def valid_levels_def
      stores_down_def remote1_def raw_page1_def raw_question1_def
      transform_to_internal_format_def pool_x_def Let_def)

lemma stores_down_flags:
  "\<not> redis_up (redis stores_down)" "\<not> supabase_up (supabase stores_down)"
  by (simp_all add: stores_down_def world0_def)

theorem get_question_pool_waterfall_witness:
  "\<not> redis_up (redis stores_down) \<and> \<not> supabase_up (supabase stores_down)
   \<and> fst (get_question_pool ''topic'' ''X'' True 50 stores_down) = Some (stamp 50 pool_x)
   \<and> fst (get_question_pool ''topic'' ''Y'' True 50 stores_down) = None"
proof -
  have y: "tier3_fetch ''topic'' ''Y'' True 50 stores_down = None"
    by (simp add: tier3_fetch_def fetch_all_pages_def fetch_question_pool_def valid_levels_def
      stores_down_def remote1_def)
  show ?thesis
    using get_question_pool_waterfall[where w = stores_down and lvl = "''topic''"
          and lid = "''X''" and now = 50 and ap = True]
      get_question_pool_waterfall[where w = stores_down and lvl = "''topic''"
          and lid = "''Y''" and now = 50 and ap = True]
    by (simp add: tier3_remote1 y stores_down_flags)
qed

section \<open>Properties of the question service\<close>

lemma up_get_questions:
  "get_questions pool now w = (qs, w') \<Longrightarrow> redis_up (redis w') = redis_up (redis w)"
  by (auto simp: get_questions_def get_questions_from_external_def Let_def
      split: option.splits prod.splits if_splits dest!: up_get_question_pool)

lemma up_get_question_by_id:
  "get_question_by_id qid now w = (oq, w') \<Longrightarrow> redis_up (redis w') = redis_up (redis w)"
  by (auto simp: get_question_by_id_def split: option.splits)

lemma split_underscore:
  "CHR ''_'' \<in> set pid \<Longrightarrow>
   takeWhile (\<lambda>c. c \<noteq> CHR ''_'') pid @ ''_'' @ tl (dropWhile (\<lambda>c. c \<noteq> CHR ''_'') pid) = pid"
proof -
  assume "CHR ''_'' \<in> set pid"
  then have "dropWhile (\<lambda>c. c \<noteq> CHR ''_'') pid \<noteq> []" by (auto simp: dropWhile_eq_Nil_conv)
  then obtain x xs where d: "dropWhile (\<lambda>c. c \<noteq> CHR ''_'') pid = x # xs"
    by (cases "dropWhile (\<lambda>c. c \<noteq> CHR ''_'') pid") auto
  then have "x = CHR ''_''" using hd_dropWhile[of "\<lambda>c. c \<noteq> CHR ''_''" pid] by auto
  then show ?thesis using d takeWhile_dropWhile_id[of "\<lambda>c. c \<noteq> CHR ''_''" pid] by simp
qed

lemma transform_questions_answers:
  "transform_questions raw = Returned qs \<Longrightarrow> \<forall>q\<in>set qs. correct_answer q \<noteq> None"
  by (induction raw arbitrary: qs) (auto split: option.splits outcome.splits)

lemma tier3_fetch_answers:
  "tier3_fetch lvl lid ap now w = Some pool \<Longrightarrow> \<forall>q\<in>set (questions pool). correct_answer q \<noteq> None"
  by (auto simp: tier3_fetch_def transform_to_internal_format_def Let_def
      split: outcome.splits option.splits if_splits dest!: transform_questions_answers)

lemma supabase_get_cached_answers:
  "supabase_get_cached_question_pool pid now db = (Some pool, db') \<Longrightarrow>
   \<forall>q\<in>set (questions pool). correct_answer q \<noteq> None"
  by (auto simp: supabase_get_cached_question_pool_def Let_def question_of_row_def
      split: if_splits list.splits)

text \<open>
  Every pool question carries its correct answer, provided that a pool document in the hot
  store does.
\<close>

lemma get_question_pool_answers:
  assumes "get_question_pool lvl lid ap now w = (Some pool, w')"
    and "\<forall>p. redis_get_cached_question_pool (lvl @ ''_'' @ lid) now (redis w) = Some p
           \<longrightarrow> (\<forall>q\<in>set (questions p). correct_answer q \<noteq> None)"
  shows "\<forall>q\<in>set (questions pool). correct_answer q \<noteq> None"
proof -
  have "fst (get_question_pool lvl lid ap now w) = Some pool" using assms(1) by simp
  then show ?thesis
    using assms(2) supabase_get_cached_answers[of "lvl @ ''_'' @ lid" now "supabase w"]
      tier3_fetch_answers[of lvl lid ap now w]
    unfolding get_question_pool_result
    by (auto split: option.splits prod.splits simp: fst_def)
qed

lemma get_questions_answers:
  assumes "get_questions pool now w = (qs, w')"
    and "\<forall>pid p. pool = Some pid \<and> redis_get_cached_question_pool pid now (redis w) = Some p
           \<longrightarrow> (\<forall>q\<in>set (questions p). correct_answer q \<noteq> None)"
  shows "\<forall>q\<in>set qs. correct_answer q \<noteq> None"
proof (cases pool)
  case None
  then show ?thesis using assms(1) by (auto simp: get_questions_def get_default_questions_def)
next
  case (Some pid)
  show ?thesis
  proof (cases "pid \<noteq> [] \<and> CHR ''_'' \<in> set pid")
    case True
    let ?l = "takeWhile (\<lambda>c. c \<noteq> CHR ''_'') pid"
    let ?i = "tl (dropWhile (\<lambda>c. c \<noteq> CHR ''_'') pid)"
    have pid: "?l @ ''_'' @ ?i = pid" using True split_underscore by blast
    obtain r w1 where g: "get_question_pool ?l ?i True now w = (r, w1)" by force
    show ?thesis
    proof (cases r)
      case None
      then show ?thesis using assms(1) Some True g
        by (simp add: get_questions_def get_questions_from_external_def)
    next
      case (Some p)
      have "\<forall>q\<in>set (questions p). correct_answer q \<noteq> None"
        using get_question_pool_answers[OF g[unfolded Some]] assms(2) \<open>pool = Some pid\<close>
        unfolding pid by blast
      then show ?thesis using assms(1) \<open>pool = Some pid\<close> True g Some
        by (simp add: get_questions_def get_questions_from_external_def)
    qed
  next
    case False
    then show ?thesis using assms(1) Some
      by (auto simp: get_questions_def get_default_questions_def get_questions_by_pool_def
          question_of_row_def Let_def split: if_splits)
  qed
qed

section \<open>The run\<close>

lemma qq1_fields:
  "q_id qq1 = ''q1''" "concepts qq1 = Some [1]" "difficulty qq1 = Some (1/2)"
  "discrimination qq1 = Some 1" "correct_answer qq1 = Some ''4''"
  by (simp_all add: qq1_def question_of_row_def row1_def)

lemma qq2_fields:
  "q_id qq2 = ''q2''" "concepts qq2 = Some [1]" "difficulty qq2 = Some (1/2)"
  "discrimination qq2 = Some 1" "correct_answer qq2 = Some ''6''"
  by (simp_all add: qq2_def question_of_row_def row2_def)

lemma safe_fields:
  "q_id safe1 = ''q1''" "discrimination safe1 = Some 1" "difficulty safe1 = Some (1/2)"
  "q_id safe2 = ''q2''"
  by (simp_all add: safe1_def safe2_def qq1_fields qq2_fields)

lemma state1_fields:
  "status state1 = ''active''" "student_id state1 = ''s1''" "current_proficiency state1 = [1/2]"
  "question_pool_id state1 = Some ''pool1''" "questions_answered state1 = 0"
  "correct_count state1 = 0" "st_end_criteria state1 = default_end_criteria"
  by (simp_all add: state1_def)

lemma state2_fields:
  "status state2 = ''active''" "student_id state2 = ''s1''" "current_proficiency state2 = [1/2]"
  "question_pool_id state2 = Some ''pool1''" "questions_answered state2 = 0"
  "correct_count state2 = 1" "st_end_criteria state2 = default_end_criteria"
  by (simp_all add: state2_def state1_def)

lemma get_questions0:
  "get_questions (Some ''pool1'') now world0 =
     ([qq1, qq2], world0\<lparr>redis := cache_questions [qq1, qq2] now (redis world0)\<rparr>)"
  by (simp add: get_questions_def get_questions_by_pool_def world0_def row1_def row2_def qq1_def qq2_def Let_def)

lemma get_questions1:
  "supabase w = (supabase world0)\<lparr>students := a, student_proficiencies := b, test_sessions := c\<rparr> \<Longrightarrow>
   get_questions (Some ''pool1'') now w =
     ([qq1, qq2], w\<lparr>redis := cache_questions [qq1, qq2] now (redis w)\<rparr>)"
  by (simp add: get_questions_def get_questions_by_pool_def world0_def row1_def row2_def qq1_def qq2_def Let_def)

lemma get_questions2:
  "supabase w = (supabase world0)\<lparr>students := a, student_proficiencies := b,
      test_responses := d, test_sessions := c\<rparr> \<Longrightarrow>
   get_questions (Some ''pool1'') now w =
     ([qq1, qq2], w\<lparr>redis := cache_questions [qq1, qq2] now (redis w)\<rparr>)"
  by (simp add: get_questions_def get_questions_by_pool_def world0_def row1_def row2_def qq1_def qq2_def Let_def)

lemma qm0: "create_q_matrix [qq1, qq2] = [''q1'' \<mapsto> [1], ''q2'' \<mapsto> [1]]"
  by (simp add: create_q_matrix_def qq1_fields qq2_fields)

lemma prob_half:
  "calculate_probability [1/2] qq1 [''q1'' \<mapsto> [1], ''q2'' \<mapsto> [1]] = 1/2"
  "calculate_probability [1/2] qq2 [''q1'' \<mapsto> [1], ''q2'' \<mapsto> [1]] = 1/2"
  by (simp_all add: calculate_probability_def q_vector_of_def qq1_fields qq2_fields expit_def clip_def)

lemma info_quarter:
  "calculate_information qq1 [1/2] [''q1'' \<mapsto> [1], ''q2'' \<mapsto> [1]] = 1/4"
  "calculate_information qq2 [1/2] [''q1'' \<mapsto> [1], ''q2'' \<mapsto> [1]] = 1/4"
  by (simp_all add: calculate_information_def prob_half Let_def qq1_fields qq2_fields)

lemma select0: "select_next_question [qq1, qq2] [''q1'' \<mapsto> [1], ''q2'' \<mapsto> [1]] [1/2] [] = Some qq1"
  by (simp add: select_next_question_def available_questions_def info_quarter Let_def)

lemma update1: "update_ability [1/2] safe1 1 [''q1'' \<mapsto> [1], ''q2'' \<mapsto> [1]] = [41/80]"
  by (simp add: update_ability_def calculate_probability_def q_vector_of_def safe_fields
      clip_def expit_def learning_rate_def Let_def)

lemma select_single:
  "select_next_question [qq1, qq2] qm prof [r] = Some qq2" if "question_id r = ''q1''"
  using that by (simp add: select_next_question_def available_questions_def qq1_fields qq2_fields Let_def)

lemma select_double:
  "select_next_question [qq1, qq2] qm prof [r, r'] = Some qq2"
  if "question_id r = ''q1''" "question_id r' = ''q1''"
  using that by (simp add: select_next_question_def available_questions_def qq1_fields qq2_fields Let_def)

lemma should_continue_default:
  "length rs < 5 \<Longrightarrow> should_continue rs prof default_end_criteria"
  by (simp add: should_continue_def default_end_criteria_def Let_def)

text \<open>
  The start of the test.
\<close>

lemma start_eval:
  "start_test start_req ''sess1'' 100 world0 =
    ((200, StartedBody \<lparr>sp_session_id = ''sess1'', sp_student_id = ''s1'',
          sp_initial_proficiency = [1/2], sp_concept_names = [''Math''],
          sp_next_question = qq1, sp_status = ''started''\<rparr>), world1)"
  apply (simp add: start_test_def start_req_def get_questions0 qm0 Let_def)
  apply (simp add: world0_def world1_def get_or_create_student_def create_user_proficiency_def
       get_current_proficiency_def student_proficiency_rows_def create_session_def
       select0 store_session_state_def client_setex_def cache_question_def qq1_fields qq2_fields
       state1_def session_ttl_def safe1_def safe2_def student1_def prof_row1_def
       session_row1_def Let_def)
  done

text \<open>
  The branch of \<open>submit_locked\<close> that answers \<open>continue\<close>, step by step.
\<close>

lemma submit_locked_continue:
  assumes st: "get_session_state session_id now (redis w) = Some st" "status st = ''active''"
    and q: "get_question_by_id qid now w = (Some q, w1)"
    and qs: "get_questions (question_pool_id st) now w1 = (qs, w2)"
    and new: "new = update_ability (current_proficiency st) q resp (create_q_matrix qs)"
    and db3: "db3 = snd (update_session_activity session_id now
                     (snd (store_response (student_id st) session_id qid resp
                            (current_proficiency st) new now
                        (snd (update_user_proficiency (student_id st) new now (supabase w2))))))"
    and rs: "rs = get_user_responses (student_id st) session_id db3"
    and cont: "should_continue rs new (st_end_criteria st)"
    and nq: "select_next_question qs (create_q_matrix qs) new rs = Some nq"
  shows "submit_locked session_id qid resp now w =
     ((200, ContinueBody \<lparr>ct_status = ''continue'', ct_current_proficiency = new,
          ct_next_question = nq, ct_questions_answered = questions_answered st + 1\<rparr>),
      w2\<lparr>supabase := db3,
         redis := snd (store_session_state session_id
                   (st\<lparr>next_question_id := q_id nq,
                       correct_count := correct_count st + (if resp = 1 then 1 else 0)\<rparr>) now
                   (snd (update_session_proficiency session_id new
                           (questions_answered st + 1) now (redis w2))))\<rparr>)"
  using st q qs cont nq unfolding new db3 rs
  by (simp add: submit_locked_def Let_def)

text \<open>
  The first submit, and the same submit again.
\<close>

lemma submit1_locked:
  defines "wl \<equiv> world1\<lparr>redis := client_setex (redis world1) 110 (lock_key ''sess1'' ''q1'') 5 LockFlag\<rparr>"
  shows "submit_locked ''sess1'' ''q1'' 1 110 wl =
     ((200, ContinueBody \<lparr>ct_status = ''continue'', ct_current_proficiency = [41/80],
          ct_next_question = qq2, ct_questions_answered = 1\<rparr>),
      world2\<lparr>redis := (redis world2)\<lparr>redis_kv :=
          (redis_kv (redis world2))(lock_key ''sess1'' ''q1'' \<mapsto> (LockFlag, 115))\<rparr>\<rparr>)"
proof -
  have st: "get_session_state ''sess1'' 110 (redis wl) = Some state1"
    by (simp add: wl_def world1_def get_session_state_def client_get_def client_setex_def keys_distinct)
  have q: "get_question_by_id ''q1'' 110 wl = (Some safe1, wl)"
    by (simp add: wl_def world1_def get_question_by_id_def get_cached_question_def
        client_get_def client_setex_def keys_distinct key_inj)
  have sup: "supabase wl = (supabase world0)\<lparr>students := [student1],
        student_proficiencies := [prof_row1], test_sessions := [session_row1]\<rparr>"
    by (simp add: wl_def world1_def)
  have qs: "get_questions (question_pool_id state1) 110 wl =
       ([qq1, qq2], wl\<lparr>redis := cache_questions [qq1, qq2] 110 (redis wl)\<rparr>)"
    unfolding state1_fields by (rule get_questions1[OF sup])
  have new: "[41/80] = update_ability (current_proficiency state1) safe1 1 (create_q_matrix [qq1, qq2])"
    by (simp add: state1_fields qm0 update1)
  define db3 where "db3 = snd (update_session_activity ''sess1'' 110
                     (snd (store_response (student_id state1) ''sess1'' ''q1'' 1
                            (current_proficiency state1) [41/80] 110
                        (snd (update_user_proficiency (student_id state1) [41/80] 110
                           (supabase (wl\<lparr>redis := cache_questions [qq1, qq2] 110 (redis wl)\<rparr>)))))))"
  have db3: "db3 = supabase world2"
    unfolding db3_def
    by (simp add: sup state1_fields update_user_proficiency_def student_proficiency_rows_def
        store_response_def update_session_activity_def world0_def world2_def prof_row1_def
        session_row1_def response1_def Let_def)
  have rs: "[response1] = get_user_responses (student_id state1) ''sess1'' db3"
    by (simp add: db3 world2_def world0_def get_user_responses_def state1_fields response1_def)
  have cont: "should_continue [response1] [41/80] (st_end_criteria state1)"
    by (simp add: state1_fields should_continue_default)
  have nq: "select_next_question [qq1, qq2] (create_q_matrix [qq1, qq2]) [41/80] [response1] = Some qq2"
    by (rule select_single) (simp add: response1_def)
  have up: "redis_up (cache_questions [qq1, qq2] 110 (redis wl))"
    by (simp add: wl_def world1_def)
  note step = submit_locked_continue[OF st state1_fields(1) q qs new db3_def rs cont nq]
  show ?thesis
    unfolding step
    apply (simp add: state1_fields db3)
    apply (simp add: wl_def world1_def world2_def store_after_update cache_question_def
        client_setex_def qq1_fields qq2_fields state2_def session_ttl_def safe1_def safe2_def
        world0_def)
    apply (rule ext)
    apply (simp add: keys_distinct key_inj)
    done
qed

lemma submit1_eval:
  "submit_response submit_req 110 world1 = ((200, ContinueBody payload1), world2)"
proof -
  have acq: "acquire_submission_lock ''sess1'' ''q1'' 110 (redis world1)
      = (True, client_setex (redis world1) 110 (lock_key ''sess1'' ''q1'') 5 LockFlag)"
    by (simp add: acquire_submission_lock_def world1_def client_get_def keys_distinct)
  show ?thesis
    apply (simp add: submit_response_def submit_req_def acq submit1_locked payload1_def)
    apply (simp add: release_submission_lock_def client_delete_def world2_def world0_def)
    apply (rule ext)
    apply (simp add: keys_distinct)
    done
qed

lemma submit2_locked:
  defines "wl \<equiv> world2\<lparr>redis := client_setex (redis world2) 111 (lock_key ''sess1'' ''q1'') 5 LockFlag\<rparr>"
  shows "submit_locked ''sess1'' ''q1'' 1 111 wl =
     ((200, ContinueBody payload1),
      world3\<lparr>redis := (redis world3)\<lparr>redis_kv :=
          (redis_kv (redis world3))(lock_key ''sess1'' ''q1'' \<mapsto> (LockFlag, 116))\<rparr>\<rparr>)"
proof -
  have st: "get_session_state ''sess1'' 111 (redis wl) = Some state2"
    by (simp add: wl_def world2_def get_session_state_def client_get_def client_setex_def keys_distinct)
  have q: "get_question_by_id ''q1'' 111 wl = (Some safe1, wl)"
    by (simp add: wl_def world2_def get_question_by_id_def get_cached_question_def
        client_get_def client_setex_def keys_distinct key_inj)
  have sup: "supabase wl = (supabase world0)\<lparr>students := [student1],
        student_proficiencies := [prof_row1\<lparr>proficiency_value := 41/80, p_updated_at := 110\<rparr>],
        test_responses := [response1],
        test_sessions := [session_row1\<lparr>sr_last_activity := 110\<rparr>]\<rparr>"
    by (simp add: wl_def world2_def)
  have qs: "get_questions (question_pool_id state2) 111 wl =
       ([qq1, qq2], wl\<lparr>redis := cache_questions [qq1, qq2] 111 (redis wl)\<rparr>)"
    unfolding state2_fields by (rule get_questions2[OF sup])
  have new: "[41/80] = update_ability (current_proficiency state2) safe1 1 (create_q_matrix [qq1, qq2])"
    by (simp add: state2_fields qm0 update1)
  define db3 where "db3 = snd (update_session_activity ''sess1'' 111
                     (snd (store_response (student_id state2) ''sess1'' ''q1'' 1
                            (current_proficiency state2) [41/80] 111
                        (snd (update_user_proficiency (student_id state2) [41/80] 111
                           (supabase (wl\<lparr>redis := cache_questions [qq1, qq2] 111 (redis wl)\<rparr>)))))))"
  have db3: "db3 = supabase world3"
    unfolding db3_def
    by (simp add: sup state2_fields update_user_proficiency_def student_proficiency_rows_def
        store_response_def update_session_activity_def world0_def world3_def prof_row1_def
        session_row1_def response1_def response2_def Let_def)
  have rs: "[response1, response2] = get_user_responses (student_id state2) ''sess1'' db3"
    by (simp add: db3 world3_def world0_def get_user_responses_def state2_fields response1_def
        response2_def)
  have cont: "should_continue [response1, response2] [41/80] (st_end_criteria state2)"
    by (simp add: state2_fields should_continue_default)
  have nq: "select_next_question [qq1, qq2] (create_q_matrix [qq1, qq2]) [41/80]
              [response1, response2] = Some qq2"
    by (rule select_double) (simp_all add: response1_def response2_def)
  note step = submit_locked_continue[OF st state2_fields(1) q qs new db3_def rs cont nq]
  show ?thesis
    unfolding step
    apply (simp add: state2_fields db3 payload1_def)
    apply (simp add: wl_def world2_def world3_def store_after_update cache_question_def
        client_setex_def qq1_fields qq2_fields state2_def state3_def session_ttl_def
        safe1_def safe2_def world0_def)
    apply (rule ext)
    apply (simp add: keys_distinct key_inj)
    done
qed

lemma submit2_eval:
  "submit_response submit_req 111 world2 = ((200, ContinueBody payload1), world3)"
proof -
  have acq: "acquire_submission_lock ''sess1'' ''q1'' 111 (redis world2)
      = (True, client_setex (redis world2) 111 (lock_key ''sess1'' ''q1'') 5 LockFlag)"
    by (simp add: acquire_submission_lock_def world2_def client_get_def keys_distinct)
  show ?thesis
    apply (simp add: submit_response_def submit_req_def acq submit2_locked)
    apply (simp add: release_submission_lock_def client_delete_def world3_def world0_def)
    apply (rule ext)
    apply (simp add: keys_distinct)
    done
qed

section \<open>Properties of the request handlers\<close>

subsection \<open>The first question of a started test\<close>

lemma select_loop_mem: "select_loop xs t qm m b \<in> insert b (set xs)"
  by (induction xs arbitrary: m b) (auto simp: Let_def)

lemma select_next_question_mem:
  "select_next_question qs qm t rs = Some q \<Longrightarrow> q \<in> set qs"
proof -
  assume a: "select_next_question qs qm t rs = Some q"
  then obtain q0 rest where av: "available_questions qs rs = q0 # rest"
    and q: "q = select_loop (q0 # rest) t qm (- 1) q0"
    by (auto simp: select_next_question_def split: list.splits)
  have "q \<in> insert q0 (set (q0 # rest))" unfolding q by (rule select_loop_mem)
  then have "q \<in> set (available_questions qs rs)" using av by auto
  then show ?thesis by (auto simp: available_questions_def)
qed

text \<open>
  C3, as stated: the \<open>next_question\<close> of a start response does not contain the
  question's \<open>correct_answer\<close>. It fails on the run: the start answers 200 and its
  \<open>next_question\<close> carries the correct answer \<open>4\<close>.
\<close>

theorem start_test_answer_counterexample:
  "\<exists>p w'. start_test start_req ''sess1'' 100 world0 = ((200, StartedBody p), w')
      \<and> correct_answer (sp_next_question p) = Some ''4''"
  by (simp add: start_eval qq1_fields)

text \<open>
  C3, amended: for every successful start, the \<open>next_question\<close> of the response is
  the selected question of the pool exactly as the question service loaded it, and it
  contains the question's \<open>correct_answer\<close> (provided that a pool document held in the hot
  store carries its questions' answers, as every document the cache manager writes
  does).
\<close>

theorem start_test_returns_pool_question:
  assumes "start_test data session_id now w = ((200, StartedBody p), w')"
    and "\<forall>pid pool. sreq_question_pool_id data = Some pid
            \<and> redis_get_cached_question_pool pid now (redis w) = Some pool
           \<longrightarrow> (\<forall>q\<in>set (questions pool). correct_answer q \<noteq> None)"
  shows "sp_next_question p \<in> set (fst (get_questions (sreq_question_pool_id data) now w))
     \<and> correct_answer (sp_next_question p) \<noteq> None"
proof -
  obtain qs w1 where g: "get_questions (sreq_question_pool_id data) now w = (qs, w1)" by force
  from assms(1) g obtain t where "select_next_question qs (create_q_matrix qs) t [] = Some (sp_next_question p)"
    by (auto simp: start_test_def Let_def internal_error_def
        split: option.splits if_splits prod.splits)
  then have "sp_next_question p \<in> set qs" by (rule select_next_question_mem)
  then show ?thesis using get_questions_answers[OF g assms(2)] g by auto
qed

theorem start_test_returns_pool_question_witness:
  "\<exists>p w'. start_test start_req ''sess1'' 100 world0 = ((200, StartedBody p), w')
      \<and> sp_next_question p \<in> set (fst (get_questions (Some ''pool1'') 100 world0))
      \<and> correct_answer (sp_next_question p) \<noteq> None"
proof -
  have "\<forall>pid pool. sreq_question_pool_id start_req = Some pid
            \<and> redis_get_cached_question_pool pid 100 (redis world0) = Some pool
           \<longrightarrow> (\<forall>q\<in>set (questions pool). correct_answer q \<noteq> None)"
    by (simp add: redis_get_cached_question_pool_def world0_def client_get_def)
  from start_test_returns_pool_question[OF start_eval this]
  show ?thesis unfolding start_eval by (simp add: start_req_def)
qed

subsection \<open>The hot state after a submit that continues\<close>

lemma submit_locked_continueD:
  assumes "submit_locked sid qid resp now w = ((200, ContinueBody p), w')"
  shows "\<exists>st. get_session_state sid now (redis w) = Some st
     \<and> redis_kv (redis w') (session_key sid) =
          Some (SessionJson (st\<lparr>next_question_id := q_id (ct_next_question p),
              correct_count := correct_count st + (if resp = 1 then 1 else 0),
              last_activity := Some now\<rparr>), now + session_ttl)
     \<and> redis_up (redis w')
     \<and> ct_questions_answered p = questions_answered st + 1
     \<and> ct_current_proficiency p
          = update_ability (current_proficiency st) (the (fst (get_question_by_id qid now w))) resp
              (create_q_matrix (fst (get_questions (question_pool_id st) now
                 (snd (get_question_by_id qid now w)))))"
proof -
  from assms obtain st where st: "get_session_state sid now (redis w) = Some st"
    by (auto simp: submit_locked_def internal_error_def split: option.splits if_splits)
  then have up: "redis_up (redis w)" by (rule get_session_state_up)
  obtain oq w1 where q: "get_question_by_id qid now w = (oq, w1)" by force
  obtain qs w2 where qs: "get_questions (question_pool_id st) now w1 = (qs, w2)" by force
  have up2: "redis_up (redis w2)"
    using up up_get_question_by_id[OF q] up_get_questions[OF qs] by simp
  show ?thesis
    using assms st q qs up2
    by (auto simp: submit_locked_def internal_error_def Let_def store_after_update
        client_setex_def
        split: option.splits if_splits)
qed

text \<open>
  C1 claims that after a submit that answers \<open>continue\<close> the hot state holds the new
  proficiency and \<open>questions_answered\<close> incremented. The handler writes both with
  \<open>update_session_proficiency\<close> and then stores the dictionary it read at the start of
  the call, with only \<open>next_question_id\<close> and \<open>correct_count\<close> replaced. So after every
  such submit the hot state is the state before the call with a new \<open>next_question_id\<close>,
  \<open>correct_count\<close> and \<open>last_activity\<close>: the proficiency and
  \<open>questions_answered\<close> are the old ones, while the response reports the counter
  incremented.
\<close>

theorem submit_continue_hot_state:
  assumes "submit_response data now w = ((200, ContinueBody p), w')"
  shows "\<exists>sid st. sub_session_id data = Some sid
     \<and> get_session_state sid now (redis w) = Some st
     \<and> get_session_state sid now (redis w') =
          Some (st\<lparr>next_question_id := q_id (ct_next_question p),
                   correct_count := correct_count st + (if sub_response data = Some 1 then 1 else 0),
                   last_activity := Some now\<rparr>)
     \<and> ct_questions_answered p = questions_answered st + 1"
proof -
  from assms obtain sid qid resp where d: "sub_session_id data = Some sid"
      "sub_question_id data = Some qid" "sub_response data = Some resp"
    by (auto simp: submit_response_def split: option.splits if_splits prod.splits)
  let ?rl = "client_setex (redis w) now (lock_key sid qid) 5 LockFlag"
  from assms d obtain w1 where
    locked: "submit_locked sid qid resp now (w\<lparr>redis := ?rl\<rparr>) = ((200, ContinueBody p), w1)"
    and w': "w' = w1\<lparr>redis := snd (release_submission_lock sid qid now (redis w1))\<rparr>"
    by (auto simp: submit_response_def acquire_submission_lock_def
        split: option.splits if_splits prod.splits bool.splits)
  from submit_locked_continueD[OF locked] obtain st where
    st: "get_session_state sid now ?rl = Some st"
    and kv: "redis_kv (redis w1) (session_key sid) =
          Some (SessionJson (st\<lparr>next_question_id := q_id (ct_next_question p),
              correct_count := correct_count st + (if resp = 1 then 1 else 0),
              last_activity := Some now\<rparr>), now + session_ttl)"
    and up: "redis_up (redis w1)"
    and n: "ct_questions_answered p = questions_answered st + 1"
    by auto
  have "get_session_state sid now (redis w) = Some st"
    using st by (simp add: get_session_state_setex_other keys_distinct)
  moreover have "get_session_state sid now (redis w') =
          Some (st\<lparr>next_question_id := q_id (ct_next_question p),
                   correct_count := correct_count st + (if resp = 1 then 1 else 0),
                   last_activity := Some now\<rparr>)"
    using kv up unfolding w'
    by (simp add: release_submission_lock_def get_session_state_def client_delete_def
        client_get_def keys_distinct session_ttl_def)
  ultimately show ?thesis using d n by simp
qed

theorem submit_continue_hot_state_witness:
  "start_test start_req ''sess1'' 100 world0 =
      ((200, StartedBody \<lparr>sp_session_id = ''sess1'', sp_student_id = ''s1'',
          sp_initial_proficiency = [1/2], sp_concept_names = [''Math''],
          sp_next_question = qq1, sp_status = ''started''\<rparr>), world1)
   \<and> submit_response submit_req 110 world1 = ((200, ContinueBody payload1), world2)
   \<and> ct_current_proficiency payload1 = [41/80] \<and> ct_questions_answered payload1 = 1
   \<and> (\<exists>st. get_session_state ''sess1'' 110 (redis world2) = Some st
          \<and> current_proficiency st = [1/2] \<and> questions_answered st = 0)"
proof -
  have hot: "get_session_state ''sess1'' 110 (redis world1) = Some state1"
    by (simp add: world1_def get_session_state_def client_get_def keys_distinct)
  from submit_continue_hot_state[OF submit1_eval] hot
  have "\<exists>st. get_session_state ''sess1'' 110 (redis world2) = Some st
          \<and> current_proficiency st = [1/2] \<and> questions_answered st = 0"
    by (auto simp: state1_fields submit_req_def)
  then show ?thesis
    using start_eval submit1_eval by (simp add: payload1_def)
qed

subsection \<open>Submitting the same answer twice\<close>

text \<open>
  C4 claims that at most one response row exists for a session and question, and that of
  repeated submits of the same pair exactly one succeeds. On the run, the submit at time
  110 and the same submit at time 111 both answer 200, and the warm store then holds two
  response rows for the pair: the lock is released when the first submit returns, and
  \<open>store_response\<close> is a plain insert.
\<close>

theorem duplicate_submit_run:
  "(case start_test start_req ''sess1'' 100 world0 of (a0, w1) \<Rightarrow>
    case submit_response submit_req 110 w1 of (a1, w2) \<Rightarrow>
    case submit_response submit_req 111 w2 of (a2, w3) \<Rightarrow>
      fst a0 = 200 \<and> a1 = (200, ContinueBody payload1) \<and> a2 = (200, ContinueBody payload1)
      \<and> filter (\<lambda>r. r_session_id r = ''sess1'' \<and> question_id r = ''q1'')
           (test_responses (supabase w3)) = [response1, response2])"
  by (simp add: start_eval submit1_eval submit2_eval world3_def response1_def response2_def)

subsection \<open>Ending a test twice\<close>

lemma filter_map_session:
  "filter (\<lambda>s. sr_id s = sid) (map (\<lambda>s. if sr_id s = sid then f s else s) rows)
     = map f (filter (\<lambda>s. sr_id s = sid) rows)"
  if "\<And>s. sr_id (f s) = sr_id s"
  using that by (induction rows) auto

lemma get_session_complete:
  assumes "supabase_up db" "get_session sid db = Some row"
  shows "get_session sid (snd (complete_session sid final answered correct now db))
     = Some (row\<lparr>sr_status := Some ''completed'', final_proficiency := Some final,
                 sr_total_questions := Some answered, correct_responses := correct,
                 accuracy := Some (accuracy_of correct answered), completed_at := Some now\<rparr>)"
proof -
  from assms obtain rest where f: "filter (\<lambda>s. sr_id s = sid) (test_sessions db) = row # rest"
    by (auto simp: get_session_def split: list.splits)
  show ?thesis
    using assms(1) by (simp add: get_session_def complete_session_def filter_map_session f)
qed

lemma get_session_state_later:
  "get_session_state sid t1 r = None \<Longrightarrow> t1 \<le> t2 \<Longrightarrow> get_session_state sid t2 r = None"
  by (auto simp: get_session_state_def client_get_def split: if_splits option.splits redis_value.splits)

text \<open>The two branches of \<open>end_test\<close>.\<close>

lemma end_test_cold:
  assumes "get_session_state sid t (redis w) = None"
  shows "end_test sid t w =
     (case get_session sid (supabase w) of
        None \<Rightarrow> ((404, ErrorBody ''Session not found''), w)
      | Some session_data \<Rightarrow>
          ((200, CompletionBody
              \<lparr>cp_status = (case sr_status session_data of
                              None \<Rightarrow> ''already_ended'' | Some s \<Rightarrow> s),
               cp_final_proficiency = (case final_proficiency session_data of
                                         None \<Rightarrow> [] | Some p \<Rightarrow> p),
               cp_total_questions = (case sr_total_questions session_data of
                                       None \<Rightarrow> 0 | Some n \<Rightarrow> n),
               cp_accuracy = (case accuracy session_data of None \<Rightarrow> 0 | Some a \<Rightarrow> a)\<rparr>),
           w))"
  using assms by (simp add: end_test_def)

lemma end_test_hot:
  assumes "get_session_state sid t (redis w) = Some st"
  shows "end_test sid t w =
     ((200, CompletionBody
          \<lparr>cp_status = ''ended'', cp_final_proficiency = current_proficiency st,
           cp_total_questions = questions_answered st,
           cp_accuracy = accuracy_of (correct_count st) (questions_answered st)\<rparr>),
      w\<lparr>supabase := snd (complete_session sid (current_proficiency st)
                 (questions_answered st) (correct_count st) t (supabase w)),
        redis := snd (delete_session_state sid t (redis w))\<rparr>)"
  using assms by (simp add: end_test_def Let_def)

text \<open>
  C7, as stated: the second \<open>end\<close> returns the same completion payload as the first.
  It fails on the status: the first call answers \<open>ended\<close>, the second the stored status
  \<open>completed\<close>.
\<close>

theorem end_test_twice_counterexample:
  "(case start_test start_req ''sess1'' 100 world0 of (a0, w1) \<Rightarrow>
    case end_test ''sess1'' 130 w1 of (a1, w2) \<Rightarrow>
    case end_test ''sess1'' 140 w2 of (a2, w3) \<Rightarrow>
      fst a0 = 200 \<and> a1 = (200, CompletionBody ended_payload)
      \<and> a2 = (200, CompletionBody (ended_payload\<lparr>cp_status := ''completed''\<rparr>))
      \<and> a2 \<noteq> a1)"
proof -
  have hot: "get_session_state ''sess1'' 130 (redis world1) = Some state1"
    by (simp add: world1_def get_session_state_def client_get_def keys_distinct)
  have row: "get_session ''sess1'' (supabase world1) = Some session_row1"
    by (simp add: world1_def world0_def get_session_def session_row1_def)
  have up: "supabase_up (supabase world1)" "redis_up (redis world1)"
    by (simp_all add: world1_def world0_def)
  show ?thesis
    by (simp add: start_eval end_test_def hot Let_def get_session_state_deleted[OF up(2)]
        get_session_complete[OF up(1) row] state1_fields accuracy_of_def ended_payload_def
        session_row1_def)
qed

text \<open>
  C7, amended: when \<open>end\<close> succeeds on a session whose row a reachable warm store
  holds, and is called again (not earlier), the second call changes no state and returns
  the same final proficiency, total questions and accuracy as the first. The status is the
  same too, except when the first call found hot state: then the first payload says
  \<open>ended\<close> and the second the stored status \<open>completed\<close>.
\<close>

theorem end_test_twice:
  assumes first: "end_test sid t1 w = ((200, CompletionBody p1), w1)"
    and up: "supabase_up (supabase w)"
    and row: "get_session sid (supabase w) \<noteq> None"
    and later: "t1 \<le> t2"
  shows "\<exists>p2. end_test sid t2 w1 = ((200, CompletionBody p2), w1)
      \<and> cp_final_proficiency p2 = cp_final_proficiency p1
      \<and> cp_total_questions p2 = cp_total_questions p1
      \<and> cp_accuracy p2 = cp_accuracy p1
      \<and> (if get_session_state sid t1 (redis w) = None then cp_status p2 = cp_status p1
          else cp_status p1 = ''ended'' \<and> cp_status p2 = ''completed'')"
proof (cases "get_session_state sid t1 (redis w)")
  case None
  from row obtain r where r: "get_session sid (supabase w) = Some r" by auto
  have cold2: "get_session_state sid t2 (redis w) = None"
    using None later by (rule get_session_state_later)
  have w1: "w1 = w" using first unfolding end_test_cold[OF None] r by simp
  have "end_test sid t2 w = end_test sid t1 w"
    unfolding end_test_cold[OF None] end_test_cold[OF cold2] ..
  then show ?thesis using first None unfolding w1 by simp
next
  case (Some st)
  from row obtain r where r: "get_session sid (supabase w) = Some r" by auto
  have rup: "redis_up (redis w)" using Some by (rule get_session_state_up)
  let ?db = "snd (complete_session sid (current_proficiency st)
                 (questions_answered st) (correct_count st) t1 (supabase w))"
  let ?r = "snd (delete_session_state sid t1 (redis w))"
  from first have p1: "p1 = \<lparr>cp_status = ''ended'', cp_final_proficiency = current_proficiency st,
           cp_total_questions = questions_answered st,
           cp_accuracy = accuracy_of (correct_count st) (questions_answered st)\<rparr>"
    and w1: "w1 = w\<lparr>supabase := ?db, redis := ?r\<rparr>"
    unfolding end_test_hot[OF Some] by simp_all
  have cold: "get_session_state sid t2 (redis w1) = None"
    unfolding w1 using get_session_state_deleted[OF rup] by simp
  have row': "get_session sid (supabase w1) = Some (r\<lparr>sr_status := Some ''completed'',
        final_proficiency := Some (current_proficiency st),
        sr_total_questions := Some (questions_answered st),
        correct_responses := correct_count st,
        accuracy := Some (accuracy_of (correct_count st) (questions_answered st)),
        completed_at := Some t1\<rparr>)"
    unfolding w1 using get_session_complete[OF up r] by simp
  show ?thesis
    unfolding end_test_cold[OF cold] row' using Some by (simp add: p1)
qed

theorem end_test_twice_witness:
  "\<exists>p1 p2 w1. end_test ''sess1'' 130 world1 = ((200, CompletionBody p1), w1)
      \<and> end_test ''sess1'' 140 w1 = ((200, CompletionBody p2), w1)
      \<and> cp_status p1 = ''ended'' \<and> cp_status p2 = ''completed''
      \<and> cp_final_proficiency p2 = cp_final_proficiency p1
      \<and> cp_total_questions p2 = cp_total_questions p1
      \<and> cp_accuracy p2 = cp_accuracy p1"
proof -
  have hot: "get_session_state ''sess1'' 130 (redis world1) = Some state1"
    by (simp add: world1_def get_session_state_def client_get_def keys_distinct)
  have row: "get_session ''sess1'' (supabase world1) \<noteq> None"
    by (simp add: world1_def world0_def get_session_def session_row1_def)
  have up: "supabase_up (supabase world1)"
    by (simp add: world1_def world0_def)
  have le: "(130::nat) \<le> 140" by simp
  note first = end_test_hot[OF hot]
  from end_test_twice[OF first up row le] hot obtain p2 where
    "end_test ''sess1'' 140
       (world1\<lparr>supabase := snd (complete_session ''sess1'' (current_proficiency state1)
                 (questions_answered state1) (correct_count state1) 130 (supabase world1)),
               redis := snd (delete_session_state ''sess1'' 130 (redis world1))\<rparr>)
      = ((200, CompletionBody p2),
         world1\<lparr>supabase := snd (complete_session ''sess1'' (current_proficiency state1)
                 (questions_answered state1) (correct_count state1) 130 (supabase world1)),
               redis := snd (delete_session_state ''sess1'' 130 (redis world1))\<rparr>)"
    "cp_final_proficiency p2 = current_proficiency state1"
    "cp_total_questions p2 = questions_answered state1"
    "cp_accuracy p2 = accuracy_of (correct_count state1) (questions_answered state1)"
    "cp_status p2 = ''completed''"
    by auto
  with first show ?thesis by simp
qed

end
